theory Spec2Isabelle
  imports Main "HOL-Library.Sublist"
begin

section \<open>The Wan 2.2 video generation API (api.py)\<close>

text \<open>
  The service is a FastAPI application with five routes. Everything that computes a video
  lives in the external library \<open>wan\<close>; the module itself validates the request, resolves
  defaults, caches model objects and writes the result to a file. The embedding below
  follows \<open>api.py\<close> function by function. Values of the external library (model objects,
  video tensors, decoded images, floating-point settings) are opaque: they are the type
  variables \<open>'m\<close>, \<open>'v\<close>, \<open>'i\<close> and \<open>'f\<close>, and the module only passes them on.
\<close>

subsection \<open>Python values\<close>

text \<open>JSON values, as far as the handlers build them: strings, lists and objects.\<close>

datatype json = JString string | JArray "json list" | JObject "(string \<times> json) list"

text \<open>
  Exceptions. \<open>HTTPException\<close> is FastAPI's (status code and detail), \<open>ValueError\<close>,
  \<open>FileNotFoundError\<close> and \<open>KeyError\<close> are the built-in ones the module raises or
  provokes itself, and \<open>LibraryError\<close> stands for any subclass of \<open>Exception\<close> that a
  call into PIL or wan raises, with its message \<open>str(e)\<close>.
\<close>

datatype exc =
    HTTPException nat string
  | ValueError string
  | FileNotFoundError string
  | KeyError string
  | LibraryError string

text \<open>Decimal rendering of a status code, as an f-string renders an int.\<close>

definition digit_char :: "nat \<Rightarrow> char" where
  "digit_char d = char_of (48 + d)"

function str_nat :: "nat \<Rightarrow> string" where
  "str_nat n = (if n < 10 then [digit_char n] else str_nat (n div 10) @ [digit_char (n mod 10)])"
  by pat_completeness auto
termination
  by (relation "measure id") auto

declare str_nat.simps [simp del]

text \<open>
  \<open>str(e)\<close>. A built-in exception constructed with one argument prints that argument,
  a \<open>KeyError\<close> prints the \<open>repr\<close> of the key (the key in single quotes, for a key
  without quotes or escapes), and Starlette's \<open>HTTPException.__str__\<close> prints
  \<open>status_code: detail\<close>.
\<close>

fun exc_str :: "exc \<Rightarrow> string" where
  "exc_str (HTTPException code detail) = str_nat code @ '': '' @ detail"
| "exc_str (ValueError msg) = msg"
| "exc_str (FileNotFoundError msg) = msg"
| "exc_str (KeyError k) = [CHR 0x27] @ k @ [CHR 0x27]"
| "exc_str (LibraryError msg) = msg"

text \<open>\<open>str.upper()\<close> on ASCII text.\<close>

definition upper_char :: "char \<Rightarrow> char" where
  "upper_char c =
     (let n = of_char c :: nat in if 97 \<le> n \<and> n \<le> 122 then char_of (n - 32) else c)"

definition upper :: "string \<Rightarrow> string" where
  "upper s = map upper_char s"

text \<open>
  \<open>os.path.join(a, b)\<close> on POSIX: an absolute \<open>b\<close> replaces \<open>a\<close>; otherwise \<open>b\<close> is
  appended, after a separator unless \<open>a\<close> is empty or already ends with one.
\<close>

definition os_path_join :: "string \<Rightarrow> string \<Rightarrow> string" where
  "os_path_join a b =
     (if b \<noteq> [] \<and> hd b = CHR ''/'' then b
      else if a = [] \<or> last a = CHR ''/'' then a @ b
      else a @ ''/'' @ b)"

text \<open>
  A \<open>pathlib.Path\<close> is its tuple of parts; an absolute path has the root \<open>/\<close> as its first
  part. \<open>joinpath\<close> is the operator \<open>/\<close> for a right operand that is a single file name
  (the module only ever joins \<open><uuid>.mp4\<close>, which holds no separator).
\<close>

datatype path = Path "string list"

fun parts :: "path \<Rightarrow> string list" where
  "parts (Path ps) = ps"

definition joinpath :: "path \<Rightarrow> string \<Rightarrow> path" where
  "joinpath p name = Path (parts p @ [name])"

definition parent :: "path \<Rightarrow> path" where
  "parent p = Path (butlast (parts p))"

definition path_name :: "path \<Rightarrow> string" where
  "path_name p = (if parts p = [] then [] else last (parts p))"

fun join_sep :: "string list \<Rightarrow> string" where
  "join_sep [] = []"
| "join_sep [p] = p"
| "join_sep (p # q # ps) = p @ ''/'' @ join_sep (q # ps)"

fun str_path :: "path \<Rightarrow> string" where
  "str_path (Path []) = ''.''"
| "str_path (Path (p # ps)) = (if p = ''/'' then ''/'' @ join_sep ps else join_sep (p # ps))"

subsection \<open>Configuration imported from the library\<close>

text \<open>
  The fields of a \<open>WAN_CONFIGS\<close> entry that the module reads. The guidance scale and the
  shift are floating-point settings (for some models a pair of them); they are only
  passed on.
\<close>

record 'f wan_config =
  sample_steps :: int
  sample_guide_scale :: 'f
  frame_num :: int
  sample_shift :: 'f
  sample_fps :: int

text \<open>
  The module-level constants: the four tables imported from \<open>wan.configs\<close> (dictionaries,
  in insertion order) and the settings read from the process environment at import time.
\<close>

record 'f settings =
  WAN_CONFIGS :: "(string \<times> 'f wan_config) list"
  SIZE_CONFIGS :: "(string \<times> (int \<times> int)) list"
  MAX_AREA_CONFIGS :: "(string \<times> int) list"
  SUPPORTED_SIZES :: "(string \<times> string list) list"
  MODEL_TYPE :: string
  MODEL_PATH :: string
  DEVICE_ID :: int
  OUTPUT_DIR :: path

text \<open>\<open>list(d.keys())\<close> of a dictionary.\<close>

definition keys :: "('k \<times> 'a) list \<Rightarrow> 'k list" where
  "keys d = map fst d"

subsection \<open>Calls into the library and the outside world\<close>

datatype model_class = WanT2V | WanTI2V | WanI2V

text \<open>The keyword arguments of the three model constructors.\<close>

record 'f ctor_args =
  config :: "'f wan_config"
  checkpoint_dir :: string
  device_id :: int
  rank :: int
  t5_fsdp :: bool
  dit_fsdp :: bool
  use_sp :: bool
  t5_cpu :: bool
  convert_model_dtype :: bool

text \<open>
  The arguments of \<open>model.generate\<close>. The three call sites pass different subsets:
  \<open>None\<close> in \<open>arg_img\<close>, \<open>arg_size\<close> or \<open>arg_max_area\<close> means that the argument is not
  passed at all, and \<open>arg_img = Some None\<close> is \<open>img=None\<close>.
\<close>

record ('i, 'f) gen_args =
  arg_prompt :: string
  arg_img :: "'i option option"
  arg_size :: "(int \<times> int) option"
  arg_max_area :: "int option"
  arg_frame_num :: int
  arg_shift :: 'f
  arg_sample_solver :: string
  arg_sampling_steps :: int
  arg_guide_scale :: 'f
  arg_seed :: int
  arg_offload_model :: bool

text \<open>
  What the outside world answers during one call of a handler: the file system test, the
  constructors and \<open>generate\<close> of the library, PIL's decoder, the random number
  \<open>random.randint(0, sys.maxsize)\<close>, the string of \<open>uuid.uuid4()\<close> and \<open>save_video\<close>.
  A call into a library either returns a value or raises an exception, given by its
  message (\<open>Inl msg\<close>; for \<open>save_video\<close>, \<open>Some msg\<close>, and \<open>None\<close> when it returned,
  having written the file).
\<close>

record ('m, 'v, 'i, 'f) world =
  path_exists :: "string \<Rightarrow> bool"
  construct :: "model_class \<Rightarrow> 'f ctor_args \<Rightarrow> string + 'm"
  model_generate :: "'m \<Rightarrow> ('i, 'f) gen_args \<Rightarrow> string + 'v"
  image_open :: "string \<Rightarrow> string + 'i"
  randint :: int
  uuid4 :: string
  save_video :: "'v \<Rightarrow> string \<Rightarrow> int \<Rightarrow> string option"

subsection \<open>The state of the process\<close>

datatype level = INFO | ERROR

text \<open>
  \<open>model_cache\<close> is the module's dictionary \<open>_model_cache\<close>. The other fields record the
  effects of the module on its surroundings: the constructor calls made (with what each
  returned), the calls of \<open>generate\<close>, the files in the file system, and the log lines.
\<close>

record ('m, 'v, 'i, 'f) state =
  model_cache :: "string \<rightharpoonup> 'm"
  constructed :: "(model_class \<times> 'f ctor_args \<times> (string + 'm)) list"
  generated :: "('m \<times> ('i, 'f) gen_args) list"
  files :: "string \<rightharpoonup> 'v"
  log :: "(level \<times> string) list"

definition logger :: "level \<Rightarrow> string \<Rightarrow> ('m, 'v, 'i, 'f) state \<Rightarrow> ('m, 'v, 'i, 'f) state" where
  "logger lvl msg st = st\<lparr>log := log st @ [(lvl, msg)]\<rparr>"

text \<open>The state at import time: \<open>_model_cache = {}\<close>, nothing called, the files that exist.\<close>

definition initial :: "(string \<rightharpoonup> 'v) \<Rightarrow> ('m, 'v, 'i, 'f) state" where
  "initial fs = \<lparr>model_cache = Map.empty, constructed = [], generated = [], files = fs, log = []\<rparr>"

subsection \<open>get_model\<close>

text \<open>The checkpoint directory of a task: \<open>os.path.join(MODEL_PATH, f"Wan2.2-{task.upper()}")\<close>.\<close>

definition checkpoint_path :: "'f settings \<Rightarrow> string \<Rightarrow> string" where
  "checkpoint_path S task = os_path_join (MODEL_PATH S) (''Wan2.2-'' @ upper task)"

definition model_args :: "'f settings \<Rightarrow> 'f wan_config \<Rightarrow> string \<Rightarrow> bool \<Rightarrow> 'f ctor_args" where
  "model_args S cfg dir cpu =
     \<lparr>config = cfg, checkpoint_dir = dir, device_id = DEVICE_ID S, rank = 0,
      t5_fsdp = False, dit_fsdp = False, use_sp = False, t5_cpu = cpu,
      convert_model_dtype = True\<rparr>"

text \<open>
  One constructor call and what follows it in \<open>get_model\<close>: if the constructor raises,
  the exception leaves \<open>get_model\<close>; if it returns, the model is stored under the task.
\<close>

definition init_model ::
  "('m, 'v, 'i, 'f) world \<Rightarrow> ('m, 'v, 'i, 'f) state \<Rightarrow> string \<Rightarrow> model_class \<Rightarrow> 'f ctor_args
     \<Rightarrow> (exc + 'm) \<times> ('m, 'v, 'i, 'f) state" where
  "init_model W st task cls args =
     (let r = construct W cls args;
          st1 = st\<lparr>constructed := constructed st @ [(cls, args, r)]\<rparr>
      in case r of
           Inl msg \<Rightarrow> (Inl (LibraryError msg), st1)
         | Inr model \<Rightarrow>
             (Inr model,
              logger INFO (''Model initialized successfully for task: '' @ task)
                (st1\<lparr>model_cache := (model_cache st1)(task \<mapsto> model)\<rparr>)))"

definition get_model ::
  "'f settings \<Rightarrow> ('m, 'v, 'i, 'f) world \<Rightarrow> ('m, 'v, 'i, 'f) state \<Rightarrow> string
     \<Rightarrow> (exc + 'm) \<times> ('m, 'v, 'i, 'f) state" where
  "get_model S W st task =
     (case model_cache st task of
        Some model \<Rightarrow> (Inr model, st)
      | None \<Rightarrow>
          (let st1 = logger INFO (''Initializing model for task: '' @ task) st
           in case map_of (WAN_CONFIGS S) task of
                None \<Rightarrow> (Inl (ValueError (''Unsupported task: '' @ task)), st1)
              | Some cfg \<Rightarrow>
                  (let dir = checkpoint_path S task
                   in if \<not> path_exists W dir
                      then (Inl (FileNotFoundError (''Model checkpoint not found at '' @ dir)), st1)
                      else if sublist ''t2v'' task
                        then init_model W st1 task WanT2V (model_args S cfg dir False)
                      else if sublist ''ti2v'' task
                        then init_model W st1 task WanTI2V (model_args S cfg dir True)
                      else if sublist ''i2v'' task
                        then init_model W st1 task WanI2V (model_args S cfg dir False)
                      else (Inl (ValueError (''Unsupported task type: '' @ task)), st1))))"

subsection \<open>Requests and responses\<close>

text \<open>An uploaded file: its name and its bytes.\<close>

record upload =
  filename :: string
  content :: string

text \<open>
  The multipart form of \<open>POST /generate\<close>. Only \<open>prompt\<close> is required; a field that is
  \<open>None\<close> was left out of the form.
\<close>

record 'f form =
  form_prompt :: string
  form_image :: "upload option"
  form_task :: "string option"
  form_size :: "string option"
  form_frame_num :: "int option"
  form_seed :: "int option"
  form_sample_steps :: "int option"
  form_guide_scale :: "'f option"

text \<open>What a handler returns: a dictionary, or a \<open>FileResponse\<close> (path, media type, file name).\<close>

datatype body = Dict "(string \<times> json) list" | FileResponse path string string

datatype payload = JSON json | File path string string | Text string

datatype response = Response nat payload

fun status_code :: "response \<Rightarrow> nat" where
  "status_code (Response code p) = code"

fun payload_of :: "response \<Rightarrow> payload" where
  "payload_of (Response code p) = p"

text \<open>
  What FastAPI sends for the outcome of a handler: status 200 with the returned value,
  the status and detail of a raised \<open>HTTPException\<close> as \<open>{"detail": ...}\<close>, and a plain
  500 for any other exception.
\<close>

fun fastapi :: "exc + body \<Rightarrow> response" where
  "fastapi (Inr (Dict d)) = Response 200 (JSON (JObject d))"
| "fastapi (Inr (FileResponse p media name)) = Response 200 (File p media name)"
| "fastapi (Inl (HTTPException code detail)) =
     Response code (JSON (JObject [(''detail'', JString detail)]))"
| "fastapi (Inl e) = Response 500 (Text ''Internal Server Error'')"

subsection \<open>The metadata handlers\<close>

definition root :: "'f settings \<Rightarrow> body" where
  "root S =
     Dict [(''status'', JString ''healthy''),
           (''message'', JString ''Wan 2.2 Video Generation API''),
           (''model_type'', JString (MODEL_TYPE S)),
           (''available_tasks'', JArray (map JString (keys (WAN_CONFIGS S))))]"

definition health_check :: body where
  "health_check = Dict [(''status'', JString ''healthy'')]"

definition list_tasks :: "'f settings \<Rightarrow> body" where
  "list_tasks S =
     Dict [(''available_tasks'', JArray (map JString (keys (WAN_CONFIGS S)))),
           (''current_task'', JString (MODEL_TYPE S))]"

definition list_sizes :: "'f settings \<Rightarrow> string \<Rightarrow> exc + body" where
  "list_sizes S task =
     (case map_of (SUPPORTED_SIZES S) task of
        None \<Rightarrow> Inl (HTTPException 400 (''Unknown task: '' @ task))
      | Some sizes \<Rightarrow>
          Inr (Dict [(''task'', JString task),
                     (''supported_sizes'', JArray (map JString sizes))]))"

subsection \<open>generate_video\<close>

text \<open>Lines 179 to 183: the uploaded image, if there is one, is read and decoded.\<close>

definition process_image ::
  "('m, 'v, 'i, 'f) world \<Rightarrow> ('m, 'v, 'i, 'f) state \<Rightarrow> upload option
     \<Rightarrow> (exc + 'i option) \<times> ('m, 'v, 'i, 'f) state" where
  "process_image W st image' =
     (case image' of
        None \<Rightarrow> (Inr None, st)
      | Some up \<Rightarrow>
          (case image_open W (content up) of
             Inl msg \<Rightarrow> (Inl (LibraryError msg), st)
           | Inr img \<Rightarrow> (Inr (Some img), logger INFO (''Loaded input image: '' @ filename up) st)))"

text \<open>One call of \<open>model.generate\<close>, recorded in the state.\<close>

definition call_generate ::
  "('m, 'v, 'i, 'f) world \<Rightarrow> ('m, 'v, 'i, 'f) state \<Rightarrow> 'm \<Rightarrow> ('i, 'f) gen_args
     \<Rightarrow> (exc + 'v) \<times> ('m, 'v, 'i, 'f) state" where
  "call_generate W st model args =
     (case model_generate W model args of
        Inl msg \<Rightarrow> (Inl (LibraryError msg), st\<lparr>generated := generated st @ [(model, args)]\<rparr>)
      | Inr video \<Rightarrow> (Inr video, st\<lparr>generated := generated st @ [(model, args)]\<rparr>))"

text \<open>
  Lines 191 to 233: the call of \<open>generate\<close> that the task name selects. The arguments are
  evaluated before the call, so a size missing from \<open>MAX_AREA_CONFIGS\<close> raises
  \<open>KeyError\<close> and no call is made.
\<close>

definition run_generate ::
  "'f settings \<Rightarrow> ('m, 'v, 'i, 'f) world \<Rightarrow> ('m, 'v, 'i, 'f) state \<Rightarrow> 'f wan_config
     \<Rightarrow> string \<Rightarrow> string \<Rightarrow> 'i option \<Rightarrow> string \<Rightarrow> int \<times> int \<Rightarrow> int \<Rightarrow> int \<Rightarrow> 'f \<Rightarrow> int
     \<Rightarrow> 'm \<Rightarrow> (exc + 'v) \<times> ('m, 'v, 'i, 'f) state" where
  "run_generate S W st cfg task prompt img size' sz frames steps guide seed model =
     (let args = \<lparr>arg_prompt = prompt, arg_img = None, arg_size = None, arg_max_area = None,
                  arg_frame_num = frames, arg_shift = sample_shift cfg,
                  arg_sample_solver = ''unipc'', arg_sampling_steps = steps,
                  arg_guide_scale = guide, arg_seed = seed, arg_offload_model = True\<rparr>
      in if sublist ''t2v'' task
         then call_generate W st model (args\<lparr>arg_size := Some sz\<rparr>)
         else if sublist ''ti2v'' task
         then (case map_of (MAX_AREA_CONFIGS S) size' of
                 None \<Rightarrow> (Inl (KeyError size'), st)
               | Some area \<Rightarrow>
                   call_generate W st model
                     (args\<lparr>arg_img := Some img, arg_size := Some sz, arg_max_area := Some area\<rparr>))
         else if sublist ''i2v'' task
         then (case img of
                 None \<Rightarrow> (Inl (HTTPException 400 ''Image is required for i2v task''), st)
               | Some i \<Rightarrow>
                   (case map_of (MAX_AREA_CONFIGS S) size' of
                      None \<Rightarrow> (Inl (KeyError size'), st)
                    | Some area \<Rightarrow>
                        call_generate W st model
                          (args\<lparr>arg_img := Some (Some i), arg_max_area := Some area\<rparr>)))
         else (Inl (HTTPException 400 (''Unsupported task type: '' @ task)), st))"

text \<open>
  Lines 236 to 259: the video is saved under a fresh name in the output directory and
  that file is returned. When \<open>save_video\<close> returns, the file holds the video.
  (\<open>del video\<close> and \<open>torch.cuda.empty_cache()\<close> release memory and change nothing here.)
\<close>

definition save_and_return ::
  "'f settings \<Rightarrow> ('m, 'v, 'i, 'f) world \<Rightarrow> ('m, 'v, 'i, 'f) state \<Rightarrow> 'f wan_config \<Rightarrow> 'v
     \<Rightarrow> (exc + body) \<times> ('m, 'v, 'i, 'f) state" where
  "save_and_return S W st cfg video =
     (let video_id = uuid4 W;
          output_path = joinpath (OUTPUT_DIR S) (video_id @ ''.mp4'')
      in case save_video W video (str_path output_path) (sample_fps cfg) of
           Some msg \<Rightarrow> (Inl (LibraryError msg), st)
         | None \<Rightarrow>
             (Inr (FileResponse output_path ''video/mp4'' (''wan_video_'' @ video_id @ ''.mp4'')),
              logger INFO (''Video generated successfully: '' @ str_path output_path)
                (st\<lparr>files := (files st)(str_path output_path \<mapsto> video)\<rparr>)))"

text \<open>
  The form defaults of the signature: \<open>task = MODEL_TYPE\<close>, \<open>size = "1280*704"\<close> and
  \<open>seed = -1\<close>.
\<close>

definition task_of :: "'f settings \<Rightarrow> 'f form \<Rightarrow> string" where
  "task_of S rq = (case form_task rq of None \<Rightarrow> MODEL_TYPE S | Some t \<Rightarrow> t)"

definition size_of :: "'f form \<Rightarrow> string" where
  "size_of rq = (case form_size rq of None \<Rightarrow> ''1280*704'' | Some s \<Rightarrow> s)"

definition seed_of :: "'f form \<Rightarrow> int" where
  "seed_of rq = (case form_seed rq of None \<Rightarrow> - 1 | Some n \<Rightarrow> n)"

text \<open>
  Lines 167 to 176: a parameter left out of the form takes the value of the task's
  configuration, and a negative seed is replaced by a random one.
\<close>

definition resolve_sample_steps :: "'f wan_config \<Rightarrow> 'f form \<Rightarrow> int" where
  "resolve_sample_steps cfg rq =
     (case form_sample_steps rq of None \<Rightarrow> sample_steps cfg | Some n \<Rightarrow> n)"

definition resolve_guide_scale :: "'f wan_config \<Rightarrow> 'f form \<Rightarrow> 'f" where
  "resolve_guide_scale cfg rq =
     (case form_guide_scale rq of None \<Rightarrow> sample_guide_scale cfg | Some g \<Rightarrow> g)"

definition resolve_frame_num :: "'f wan_config \<Rightarrow> 'f form \<Rightarrow> int" where
  "resolve_frame_num cfg rq =
     (case form_frame_num rq of None \<Rightarrow> frame_num cfg | Some n \<Rightarrow> n)"

definition resolve_seed :: "('m, 'v, 'i, 'f) world \<Rightarrow> 'f form \<Rightarrow> int" where
  "resolve_seed W rq = (if seed_of rq < 0 then randint W else seed_of rq)"

text \<open>The body of the \<open>try\<close> statement, lines 156 to 259.\<close>

definition generate_video_try ::
  "'f settings \<Rightarrow> ('m, 'v, 'i, 'f) world \<Rightarrow> ('m, 'v, 'i, 'f) state \<Rightarrow> 'f form
     \<Rightarrow> (exc + body) \<times> ('m, 'v, 'i, 'f) state" where
  "generate_video_try S W st rq =
     (let prompt = form_prompt rq;
          task = task_of S rq;
          size' = size_of rq
      in case map_of (WAN_CONFIGS S) task of
           None \<Rightarrow> (Inl (HTTPException 400 (''Unsupported task: '' @ task)), st)
         | Some cfg \<Rightarrow>
             (case map_of (SIZE_CONFIGS S) size' of
                None \<Rightarrow> (Inl (HTTPException 400 (''Unsupported size: '' @ size')), st)
              | Some sz \<Rightarrow>
                  (let steps = resolve_sample_steps cfg rq;
                       guide = resolve_guide_scale cfg rq;
                       frames = resolve_frame_num cfg rq;
                       seed = resolve_seed W rq
                   in case process_image W st (form_image rq) of
                        (Inl e, st1) \<Rightarrow> (Inl e, st1)
                      | (Inr img, st1) \<Rightarrow>
                          (case get_model S W st1 task of
                             (Inl e, st2) \<Rightarrow> (Inl e, st2)
                           | (Inr model, st2) \<Rightarrow>
                               (let st3 = logger INFO
                                      (''Generating video with task='' @ task @ '', prompt='' @ [CHR 0x27]
                                         @ take 50 prompt @ ''...'' @ [CHR 0x27] @ '', size='' @ size') st2
                                in case run_generate S W st3 cfg task prompt img size' sz frames
                                          steps guide seed model of
                                     (Inl e, st4) \<Rightarrow> (Inl e, st4)
                                   | (Inr video, st4) \<Rightarrow> save_and_return S W st4 cfg video)))))"

text \<open>
  The handler: \<open>except Exception as e\<close> (lines 261 to 263) catches whatever the body
  raised, \<open>HTTPException\<close> included since it is a subclass of \<open>Exception\<close>, logs it and
  raises an \<open>HTTPException\<close> with status 500.
\<close>

definition generate_video ::
  "'f settings \<Rightarrow> ('m, 'v, 'i, 'f) world \<Rightarrow> ('m, 'v, 'i, 'f) state \<Rightarrow> 'f form
     \<Rightarrow> (exc + body) \<times> ('m, 'v, 'i, 'f) state" where
  "generate_video S W st rq =
     (case generate_video_try S W st rq of
        (Inr r, st1) \<Rightarrow> (Inr r, st1)
      | (Inl e, st1) \<Rightarrow>
          (Inl (HTTPException 500 (''Video generation failed: '' @ exc_str e)),
           logger ERROR (''Error generating video: '' @ exc_str e) st1))"

subsection \<open>The application\<close>

datatype 'f request =
    GET_root
  | GET_health
  | POST_generate "'f form"
  | GET_tasks
  | GET_sizes string

fun app ::
  "'f settings \<Rightarrow> ('m, 'v, 'i, 'f) world \<Rightarrow> ('m, 'v, 'i, 'f) state \<Rightarrow> 'f request
     \<Rightarrow> response \<times> ('m, 'v, 'i, 'f) state" where
  "app S W st GET_root = (fastapi (Inr (root S)), st)"
| "app S W st GET_health = (fastapi (Inr health_check), st)"
| "app S W st (POST_generate rq) = (let (r, st1) = generate_video S W st rq in (fastapi r, st1))"
| "app S W st GET_tasks = (fastapi (Inr (list_tasks S)), st)"
| "app S W st (GET_sizes task) = (fastapi (list_sizes S task), st)"

text \<open>The process serving a sequence of requests, each against the world of its moment.\<close>

fun serve ::
  "'f settings \<Rightarrow> ('m, 'v, 'i, 'f) state \<Rightarrow> (('m, 'v, 'i, 'f) world \<times> 'f request) list
     \<Rightarrow> ('m, 'v, 'i, 'f) state" where
  "serve S st [] = st"
| "serve S st ((W, rq) # rest) = serve S (snd (app S W st rq)) rest"

subsection \<open>Derived notions used in the statements\<close>

text \<open>
  The class and the \<open>t5_cpu\<close> flag that the \<open>if\<close>/\<open>elif\<close> chain of \<open>get_model\<close> selects
  for a task name, in the order of the chain; \<open>None\<close> is its \<open>else\<close> branch. The chain of
  \<open>generate_video\<close> tests the same substrings in the same order.
\<close>

definition model_class_for :: "string \<Rightarrow> (model_class \<times> bool) option" where
  "model_class_for task =
     (if sublist ''t2v'' task then Some (WanT2V, False)
      else if sublist ''ti2v'' task then Some (WanTI2V, True)
      else if sublist ''i2v'' task then Some (WanI2V, False)
      else None)"

text \<open>The calls of \<open>generate\<close> made between two states of the process.\<close>

definition new_calls ::
  "('m, 'v, 'i, 'f) state \<Rightarrow> ('m, 'v, 'i, 'f) state \<Rightarrow> ('m \<times> ('i, 'f) gen_args) list" where
  "new_calls st st' = drop (length (generated st)) (generated st')"

text \<open>
  The invariant of the cache: every entry belongs to a task of \<open>WAN_CONFIGS\<close> and holds the
  model that a recorded constructor call for that task's checkpoint returned.
\<close>

definition cache_ok :: "'f settings \<Rightarrow> ('m, 'v, 'i, 'f) state \<Rightarrow> bool" where
  "cache_ok S st \<longleftrightarrow>
     (\<forall>t m. model_cache st t = Some m \<longrightarrow>
        (\<exists>cfg cls cpu. map_of (WAN_CONFIGS S) t = Some cfg \<and> model_class_for t = Some (cls, cpu)
           \<and> (cls, model_args S cfg (checkpoint_path S t) cpu, Inr m) \<in> set (constructed st)))"

text \<open>
  Lines 189 to 233 as one step: the log line that announces the generation, followed by
  the call that the task selects, with the resolved parameters.
\<close>

definition generating_line :: "'f settings \<Rightarrow> 'f form \<Rightarrow> string" where
  "generating_line S rq =
     ''Generating video with task='' @ task_of S rq @ '', prompt='' @ [CHR 0x27]
       @ take 50 (form_prompt rq) @ ''...'' @ [CHR 0x27] @ '', size='' @ size_of rq"

definition generate_step ::
  "'f settings \<Rightarrow> ('m, 'v, 'i, 'f) world \<Rightarrow> ('m, 'v, 'i, 'f) state \<Rightarrow> 'f form \<Rightarrow> 'f wan_config
     \<Rightarrow> int \<times> int \<Rightarrow> 'i option \<Rightarrow> 'm \<Rightarrow> (exc + 'v) \<times> ('m, 'v, 'i, 'f) state" where
  "generate_step S W st rq cfg sz img model =
     run_generate S W (logger INFO (generating_line S rq) st) cfg (task_of S rq) (form_prompt rq)
       img (size_of rq) sz (resolve_frame_num cfg rq) (resolve_sample_steps cfg rq)
       (resolve_guide_scale cfg rq) (resolve_seed W rq) model"

subsection \<open>A concrete deployment\<close>

text \<open>
  Two entries of the library's tables, the default environment of the module, and a world
  in which both checkpoints are on disk and every library call returns. Opaque values are
  strings here.
\<close>

definition cfg_ti2v_5B :: "string wan_config" where
  "cfg_ti2v_5B = \<lparr>sample_steps = 50, sample_guide_scale = ''5.0'', frame_num = 121,
                   sample_shift = ''5.0'', sample_fps = 24\<rparr>"

definition cfg_i2v_A14B :: "string wan_config" where
  "cfg_i2v_A14B = \<lparr>sample_steps = 40, sample_guide_scale = ''(3.5, 3.5)'', frame_num = 81,
                    sample_shift = ''5.0'', sample_fps = 16\<rparr>"

definition demo_settings :: "string settings" where
  "demo_settings =
     \<lparr>WAN_CONFIGS = [(''i2v-A14B'', cfg_i2v_A14B), (''ti2v-5B'', cfg_ti2v_5B)],
      SIZE_CONFIGS = [(''1280*704'', (1280, 704)), (''704*1280'', (704, 1280))],
      MAX_AREA_CONFIGS = [(''1280*704'', 901120), (''704*1280'', 901120)],
      SUPPORTED_SIZES = [(''i2v-A14B'', [''720*1280'', ''1280*720'', ''480*832'', ''832*480'']),
                         (''ti2v-5B'', [''704*1280'', ''1280*704''])],
      MODEL_TYPE = ''ti2v-5B'', MODEL_PATH = ''./models'', DEVICE_ID = 0,
      OUTPUT_DIR = Path [''/'', ''tmp'', ''outputs'']\<rparr>"

definition demo_world :: "(string, string, string, string) world" where
  "demo_world =
     \<lparr>path_exists = (\<lambda>p. p = ''./models/Wan2.2-TI2V-5B'' \<or> p = ''./models/Wan2.2-I2V-A14B''),
      construct = (\<lambda>cls args. Inr (''model of '' @ checkpoint_dir args)),
      model_generate = (\<lambda>model args. Inr (''video of '' @ arg_prompt args)),
      image_open = (\<lambda>bytes. Inr bytes),
      randint = 42,
      uuid4 = ''0f8fad5b-d9cb-469f-a165-70867728950e'',
      save_video = (\<lambda>video file fps. None)\<rparr>"

definition demo_form :: "string form" where
  "demo_form =
     \<lparr>form_prompt = ''a cat'', form_image = None, form_task = None, form_size = None,
      form_frame_num = None, form_seed = None, form_sample_steps = None,
      form_guide_scale = None\<rparr>"

definition demo_state :: "(string, string, string, string) state" where
  "demo_state = initial Map.empty"

section \<open>Auxiliary lemmas\<close>

subsection \<open>What each step leaves alone\<close>

lemma logger_fields [simp]:
  "model_cache (logger lvl msg st) = model_cache st"
  "constructed (logger lvl msg st) = constructed st"
  "generated (logger lvl msg st) = generated st"
  "files (logger lvl msg st) = files st"
  "log (logger lvl msg st) = log st @ [(lvl, msg)]"
  by (simp_all add: logger_def)

lemma init_model_frame [simp]:
  "generated (snd (init_model W st task cls args)) = generated st"
  "files (snd (init_model W st task cls args)) = files st"
  by (simp_all add: init_model_def Let_def split: sum.splits)

lemma init_model_raise:
  "fst (init_model W st task cls args) = Inl e \<Longrightarrow>
     model_cache (snd (init_model W st task cls args)) = model_cache st"
  by (simp add: init_model_def Let_def split: sum.splits)

lemma init_model_keeps:
  "model_cache st task = None \<Longrightarrow> model_cache st t = Some m \<Longrightarrow>
     model_cache (snd (init_model W st task cls args)) t = Some m"
  by (auto simp add: init_model_def Let_def split: sum.splits)

lemma get_model_hit:
  "model_cache st task = Some m \<Longrightarrow> get_model S W st task = (Inr m, st)"
  by (simp add: get_model_def)

lemma get_model_frame [simp]:
  "generated (snd (get_model S W st task)) = generated st"
  "files (snd (get_model S W st task)) = files st"
  by (simp_all add: get_model_def Let_def split: option.splits)

lemma get_model_raise:
  "fst (get_model S W st task) = Inl e \<Longrightarrow>
     model_cache (snd (get_model S W st task)) = model_cache st"
  by (auto simp add: get_model_def Let_def init_model_raise split: option.splits if_splits)

lemma get_model_keeps:
  "model_cache st t = Some m \<Longrightarrow> model_cache (snd (get_model S W st task)) t = Some m"
  by (auto simp add: get_model_def Let_def init_model_keeps split: option.splits)

lemma get_model_chain:
  "model_cache st task = None \<Longrightarrow> map_of (WAN_CONFIGS S) task = Some cfg \<Longrightarrow>
   path_exists W (checkpoint_path S task) \<Longrightarrow>
   get_model S W st task =
     (case model_class_for task of
        None \<Rightarrow> (Inl (ValueError (''Unsupported task type: '' @ task)),
                 logger INFO (''Initializing model for task: '' @ task) st)
      | Some (cls, cpu) \<Rightarrow>
          init_model W (logger INFO (''Initializing model for task: '' @ task) st) task cls
            (model_args S cfg (checkpoint_path S task) cpu))"
  by (simp add: get_model_def Let_def model_class_for_def)

lemma get_model_first:
  assumes "model_cache st task = None" "map_of (WAN_CONFIGS S) task = Some cfg"
    "path_exists W (checkpoint_path S task)" "model_class_for task = Some (cls, cpu)"
    "construct W cls (model_args S cfg (checkpoint_path S task) cpu) = Inr m"
  shows "fst (get_model S W st task) = Inr m"
    and "model_cache (snd (get_model S W st task)) = (model_cache st)(task \<mapsto> m)"
    and "constructed (snd (get_model S W st task)) =
           constructed st @ [(cls, model_args S cfg (checkpoint_path S task) cpu, Inr m)]"
  using assms by (simp_all add: get_model_chain init_model_def Let_def)

lemma init_model_constructed:
  "set (constructed st) \<subseteq> set (constructed (snd (init_model W st task cls args)))"
  by (auto simp add: init_model_def Let_def split: sum.splits)

lemma get_model_constructed:
  "set (constructed st) \<subseteq> set (constructed (snd (get_model S W st task)))"
proof -
  have "set (constructed st) \<subseteq> set (constructed (snd (init_model W
          (logger INFO (''Initializing model for task: '' @ task) st) task cls args)))"
    for cls args
    using init_model_constructed [of "logger INFO (''Initializing model for task: '' @ task) st"
         W task cls args]
    by simp
  then show ?thesis
    by (simp add: get_model_def Let_def split: option.splits)
qed

lemma get_model_cache_ok:
  assumes "cache_ok S st"
  shows "cache_ok S (snd (get_model S W st task))"
proof (cases "fst (get_model S W st task)")
  case (Inl e)
  then have "model_cache (snd (get_model S W st task)) = model_cache st"
    by (rule get_model_raise)
  with assms get_model_constructed [of st S W task] show ?thesis
    unfolding cache_ok_def by (simp only:) blast
next
  case (Inr m)
  show ?thesis
  proof (cases "model_cache st task")
    case (Some m')
    then show ?thesis using assms by (simp add: get_model_hit)
  next
    case None
    from Inr None obtain cfg where cfg: "map_of (WAN_CONFIGS S) task = Some cfg"
      by (auto simp add: get_model_def Let_def split: option.splits)
    from Inr None cfg have ex: "path_exists W (checkpoint_path S task)"
      by (auto simp add: get_model_def Let_def split: if_splits)
    from Inr None cfg ex obtain cls cpu where cls: "model_class_for task = Some (cls, cpu)"
      by (cases "model_class_for task") (auto simp add: get_model_chain)
    from Inr None cfg ex cls
    have ctor: "construct W cls (model_args S cfg (checkpoint_path S task) cpu) = Inr m"
      by (auto simp add: get_model_chain init_model_def Let_def split: sum.splits)
    note first = get_model_first [OF None cfg ex cls ctor]
    show ?thesis
      unfolding cache_ok_def
    proof (intro allI impI)
      fix t m'
      assume hit: "model_cache (snd (get_model S W st task)) t = Some m'"
      show "\<exists>cfg cls cpu. map_of (WAN_CONFIGS S) t = Some cfg \<and> model_class_for t = Some (cls, cpu)
           \<and> (cls, model_args S cfg (checkpoint_path S t) cpu, Inr m')
                \<in> set (constructed (snd (get_model S W st task)))"
      proof (cases "t = task")
        case True
        with hit first(2) have "m' = m" by simp
        with True cfg cls first(3) show ?thesis by simp
      next
        case False
        with hit first(2) have "model_cache st t = Some m'" by simp
        with assms obtain cfg' cls' cpu' where
          "map_of (WAN_CONFIGS S) t = Some cfg'" "model_class_for t = Some (cls', cpu')"
          "(cls', model_args S cfg' (checkpoint_path S t) cpu', Inr m') \<in> set (constructed st)"
          unfolding cache_ok_def by blast
        with get_model_constructed [of st S W task] show ?thesis by blast
      qed
    qed
  qed
qed

lemma process_image_frame [simp]:
  "model_cache (snd (process_image W st up)) = model_cache st"
  "constructed (snd (process_image W st up)) = constructed st"
  "generated (snd (process_image W st up)) = generated st"
  "files (snd (process_image W st up)) = files st"
  by (simp_all add: process_image_def split: option.splits sum.splits)

lemma call_generate_frame [simp]:
  "model_cache (snd (call_generate W st model args)) = model_cache st"
  "constructed (snd (call_generate W st model args)) = constructed st"
  "files (snd (call_generate W st model args)) = files st"
  "generated (snd (call_generate W st model args)) = generated st @ [(model, args)]"
  by (simp_all add: call_generate_def split: sum.splits)

lemma run_generate_frame [simp]:
  "model_cache (snd (run_generate S W st cfg task prompt img sk sz frames steps guide seed model))
     = model_cache st"
  "constructed (snd (run_generate S W st cfg task prompt img sk sz frames steps guide seed model))
     = constructed st"
  "files (snd (run_generate S W st cfg task prompt img sk sz frames steps guide seed model))
     = files st"
  by (simp_all add: run_generate_def Let_def split: option.splits)

lemma save_and_return_frame [simp]:
  "model_cache (snd (save_and_return S W st cfg video)) = model_cache st"
  "constructed (snd (save_and_return S W st cfg video)) = constructed st"
  "generated (snd (save_and_return S W st cfg video)) = generated st"
  by (simp_all add: save_and_return_def Let_def split: option.splits)

subsection \<open>The paths through the body of the handler\<close>

lemma generate_video_try_cases [case_names bad_task bad_size image_error model_error
    generate_error saved]:
  fixes S :: "'f settings" and W :: "('m, 'v, 'i, 'f) world" and st rq
  defines "pim \<equiv> process_image W st (form_image rq)"
  defines "gm \<equiv> get_model S W (snd pim) (task_of S rq)"
  obtains
    "map_of (WAN_CONFIGS S) (task_of S rq) = None"
    "generate_video_try S W st rq =
       (Inl (HTTPException 400 (''Unsupported task: '' @ task_of S rq)), st)"
  | cfg where "map_of (WAN_CONFIGS S) (task_of S rq) = Some cfg"
    "map_of (SIZE_CONFIGS S) (size_of rq) = None"
    "generate_video_try S W st rq =
       (Inl (HTTPException 400 (''Unsupported size: '' @ size_of rq)), st)"
  | cfg sz e where "map_of (WAN_CONFIGS S) (task_of S rq) = Some cfg"
    "map_of (SIZE_CONFIGS S) (size_of rq) = Some sz"
    "fst pim = Inl e" "generate_video_try S W st rq = (Inl e, snd pim)"
  | cfg sz img e where "map_of (WAN_CONFIGS S) (task_of S rq) = Some cfg"
    "map_of (SIZE_CONFIGS S) (size_of rq) = Some sz"
    "fst pim = Inr img" "fst gm = Inl e" "generate_video_try S W st rq = (Inl e, snd gm)"
  | cfg sz img model e where "map_of (WAN_CONFIGS S) (task_of S rq) = Some cfg"
    "map_of (SIZE_CONFIGS S) (size_of rq) = Some sz"
    "fst pim = Inr img" "fst gm = Inr model"
    "fst (generate_step S W (snd gm) rq cfg sz img model) = Inl e"
    "generate_video_try S W st rq = (Inl e, snd (generate_step S W (snd gm) rq cfg sz img model))"
  | cfg sz img model video where "map_of (WAN_CONFIGS S) (task_of S rq) = Some cfg"
    "map_of (SIZE_CONFIGS S) (size_of rq) = Some sz"
    "fst pim = Inr img" "fst gm = Inr model"
    "fst (generate_step S W (snd gm) rq cfg sz img model) = Inr video"
    "generate_video_try S W st rq =
       save_and_return S W (snd (generate_step S W (snd gm) rq cfg sz img model)) cfg video"
proof (cases "map_of (WAN_CONFIGS S) (task_of S rq)")
  case None
  then show ?thesis using that(1) by (simp add: generate_video_try_def)
next
  case cfg: (Some cfg)
  show ?thesis
  proof (cases "map_of (SIZE_CONFIGS S) (size_of rq)")
    case None
    then show ?thesis using that(2) cfg by (simp add: generate_video_try_def)
  next
    case sz: (Some sz)
    have unf: "generate_video_try S W st rq =
       (case fst pim of
          Inl e \<Rightarrow> (Inl e, snd pim)
        | Inr img \<Rightarrow>
            (case fst gm of
               Inl e \<Rightarrow> (Inl e, snd gm)
             | Inr model \<Rightarrow>
                 (case fst (generate_step S W (snd gm) rq cfg sz img model) of
                    Inl e \<Rightarrow> (Inl e, snd (generate_step S W (snd gm) rq cfg sz img model))
                  | Inr video \<Rightarrow>
                      save_and_return S W (snd (generate_step S W (snd gm) rq cfg sz img model))
                        cfg video)))"
      using cfg sz
      by (simp add: generate_video_try_def pim_def gm_def generate_step_def generating_line_def
            Let_def split: prod.splits sum.splits)
    show ?thesis
    proof (cases "fst pim")
      case (Inl e)
      then show ?thesis using that(3) cfg sz unf by simp
    next
      case img: (Inr img)
      show ?thesis
      proof (cases "fst gm")
        case (Inl e)
        then show ?thesis using that(4) cfg sz img unf by simp
      next
        case model: (Inr model)
        show ?thesis
        proof (cases "fst (generate_step S W (snd gm) rq cfg sz img model)")
          case (Inl e)
          then show ?thesis using that(5) cfg sz img model unf by simp
        next
          case (Inr video)
          then show ?thesis using that(6) cfg sz img model unf by simp
        qed
      qed
    qed
  qed
qed

lemma generate_step_frame [simp]:
  "model_cache (snd (generate_step S W st rq cfg sz img model)) = model_cache st"
  "constructed (snd (generate_step S W st rq cfg sz img model)) = constructed st"
  "files (snd (generate_step S W st rq cfg sz img model)) = files st"
  by (simp_all add: generate_step_def)

lemma generate_video_try_preserves:
  assumes start: "P st"
    and image: "\<And>s up. P s \<Longrightarrow> P (snd (process_image W s up))"
    and model: "\<And>s t. P s \<Longrightarrow> P (snd (get_model S W s t))"
    and gen: "\<And>s cfg sz img m. P s \<Longrightarrow> P (snd (generate_step S W s rq cfg sz img m))"
    and save: "\<And>s cfg v. P s \<Longrightarrow> P (snd (save_and_return S W s cfg v))"
  shows "P (snd (generate_video_try S W st rq))"
proof -
  let ?pim = "process_image W st (form_image rq)"
  let ?gm = "get_model S W (snd ?pim) (task_of S rq)"
  have pim: "P (snd ?pim)" using start by (rule image)
  then have gm: "P (snd ?gm)" by (rule model)
  show ?thesis
  proof (cases rule: generate_video_try_cases [where S = S and W = W and st = st and rq = rq])
    case bad_task
    then show ?thesis using start by simp
  next
    case (bad_size cfg)
    then show ?thesis using start by simp
  next
    case (image_error cfg sz e)
    then show ?thesis using pim by simp
  next
    case (model_error cfg sz img e)
    then show ?thesis using gm by simp
  next
    case (generate_error cfg sz img model e)
    then show ?thesis using gen [OF gm] by simp
  next
    case (saved cfg sz img model video)
    then show ?thesis using save [OF gen [OF gm]] by simp
  qed
qed

subsection \<open>The handler, the application and the process\<close>

lemma generate_video_snd:
  "snd (generate_video S W st rq) =
     (case fst (generate_video_try S W st rq) of
        Inl e \<Rightarrow> logger ERROR (''Error generating video: '' @ exc_str e)
                  (snd (generate_video_try S W st rq))
      | Inr r \<Rightarrow> snd (generate_video_try S W st rq))"
  by (simp add: generate_video_def split: prod.splits sum.splits)

lemma generate_video_fst:
  "fst (generate_video S W st rq) =
     (case fst (generate_video_try S W st rq) of
        Inl e \<Rightarrow> Inl (HTTPException 500 (''Video generation failed: '' @ exc_str e))
      | Inr r \<Rightarrow> Inr r)"
  by (simp add: generate_video_def split: prod.splits sum.splits)

lemma app_snd:
  "snd (app S W st rq) =
     (case rq of POST_generate f \<Rightarrow> snd (generate_video S W st f) | _ \<Rightarrow> st)"
  by (cases rq) (simp_all split: prod.splits)

text \<open>A property of the state that every step keeps is kept by every request.\<close>

lemma app_preserves:
  assumes start: "P st"
    and image: "\<And>s up. P s \<Longrightarrow> P (snd (process_image W s up))"
    and model: "\<And>s t. P s \<Longrightarrow> P (snd (get_model S W s t))"
    and gen: "\<And>s f cfg sz img m. P s \<Longrightarrow> P (snd (generate_step S W s f cfg sz img m))"
    and save: "\<And>s cfg v. P s \<Longrightarrow> P (snd (save_and_return S W s cfg v))"
    and logs: "\<And>s lvl msg. P s \<Longrightarrow> P (logger lvl msg s)"
  shows "P (snd (app S W st rq))"
proof (cases rq)
  case (POST_generate f)
  have "P (snd (generate_video_try S W st f))"
    using start image model gen save by (rule generate_video_try_preserves)
  then have "P (snd (generate_video S W st f))"
    by (cases "fst (generate_video_try S W st f)") (simp_all add: generate_video_snd logs)
  then show ?thesis unfolding POST_generate by (simp only: app_snd request.case)
qed (simp_all add: start)

lemma app_cache_keeps:
  assumes "model_cache st t = Some m"
  shows "model_cache (snd (app S W st rq)) t = Some m"
  using assms
  by (rule app_preserves [where P = "\<lambda>s. model_cache s t = Some m"])
    (simp_all add: get_model_keeps)

lemma app_cache_ok:
  assumes "cache_ok S st"
  shows "cache_ok S (snd (app S W st rq))"
  using assms
proof (rule app_preserves [where P = "cache_ok S"])
  show "cache_ok S (snd (get_model S W s t))" if "cache_ok S s" for s t
    using that by (rule get_model_cache_ok)
qed (simp_all add: cache_ok_def)

lemma app_files:
  assumes "files st f \<noteq> None"
  shows "files (snd (app S W st rq)) f \<noteq> None"
  using assms
  by (rule app_preserves [where P = "\<lambda>s. files s f \<noteq> None"])
    (simp_all add: save_and_return_def Let_def split: option.splits)

lemma serve_preserves:
  assumes "P st" and "\<And>s W rq. P s \<Longrightarrow> P (snd (app S W s rq))"
  shows "P (serve S st reqs)"
  using assms(1)
proof (induction reqs arbitrary: st)
  case Nil
  then show ?case by simp
next
  case (Cons a reqs)
  obtain W rq where a: "a = (W, rq)" by (cases a)
  from Cons.prems have "P (snd (app S W st rq))" by (rule assms(2))
  then have "P (serve S (snd (app S W st rq)) reqs)" by (rule Cons.IH)
  then show ?case by (simp add: a)
qed

lemma serve_cache_keeps:
  "model_cache st t = Some m \<Longrightarrow> model_cache (serve S st reqs) t = Some m"
  by (rule serve_preserves [where P = "\<lambda>s. model_cache s t = Some m"])
    (simp_all add: app_cache_keeps)

lemma serve_cache_ok:
  "cache_ok S st \<Longrightarrow> cache_ok S (serve S st reqs)"
  by (rule serve_preserves [where P = "cache_ok S"]) (simp_all add: app_cache_ok)

lemma serve_files:
  "files st f \<noteq> None \<Longrightarrow> files (serve S st reqs) f \<noteq> None"
  by (rule serve_preserves [where P = "\<lambda>s. files s f \<noteq> None"]) (simp_all add: app_files)

lemma initial_cache_ok: "cache_ok S (initial fs)"
  by (simp add: cache_ok_def initial_def)

subsection \<open>The calls of generate\<close>

lemma new_calls_append: "generated st' = generated st @ cs \<Longrightarrow> new_calls st st' = cs"
  by (simp add: new_calls_def)

text \<open>
  \<open>generate_step\<close> makes at most one call of \<open>generate\<close>, on the model it was given and
  with the resolved parameters.
\<close>

lemma generate_step_calls:
  "\<exists>cs. generated (snd (generate_step S W st rq cfg sz img model)) = generated st @ cs
     \<and> length cs \<le> 1
     \<and> (\<forall>c \<in> set cs. fst c = model
           \<and> arg_prompt (snd c) = form_prompt rq
           \<and> arg_sampling_steps (snd c) = resolve_sample_steps cfg rq
           \<and> arg_guide_scale (snd c) = resolve_guide_scale cfg rq
           \<and> arg_frame_num (snd c) = resolve_frame_num cfg rq
           \<and> arg_seed (snd c) = resolve_seed W rq
           \<and> arg_shift (snd c) = sample_shift cfg)"
  by (simp add: generate_step_def run_generate_def call_generate_def Let_def
        split: option.splits sum.splits)

text \<open>When it returns a video, that video is what its one call of \<open>generate\<close> returned.\<close>

lemma generate_step_returns:
  assumes "fst (generate_step S W st rq cfg sz img model) = Inr video"
  shows "\<exists>a. generated (snd (generate_step S W st rq cfg sz img model)) = generated st @ [(model, a)]
           \<and> model_generate W model a = Inr video"
  using assms
  by (simp add: generate_step_def run_generate_def call_generate_def Let_def
        split: option.splits sum.splits if_splits)

text \<open>The branch of a text-and-image task: the image is passed on as it is, present or not.\<close>

lemma generate_step_ti2v:
  assumes "sublist ''ti2v'' (task_of S rq)" and "\<not> sublist ''t2v'' (task_of S rq)"
  shows "generate_step S W st rq cfg sz img model =
     (case map_of (MAX_AREA_CONFIGS S) (size_of rq) of
        None \<Rightarrow> (Inl (KeyError (size_of rq)), logger INFO (generating_line S rq) st)
      | Some area \<Rightarrow>
          call_generate W (logger INFO (generating_line S rq) st) model
            \<lparr>arg_prompt = form_prompt rq, arg_img = Some img, arg_size = Some sz,
             arg_max_area = Some area, arg_frame_num = resolve_frame_num cfg rq,
             arg_shift = sample_shift cfg, arg_sample_solver = ''unipc'',
             arg_sampling_steps = resolve_sample_steps cfg rq,
             arg_guide_scale = resolve_guide_scale cfg rq, arg_seed = resolve_seed W rq,
             arg_offload_model = True\<rparr>)"
  using assms by (simp add: generate_step_def run_generate_def Let_def split: option.splits)

text \<open>The check for a missing image is reached by image-to-video tasks only.\<close>

lemma generate_step_image_required:
  assumes "fst (generate_step S W st rq cfg sz img model)
             = Inl (HTTPException 400 ''Image is required for i2v task'')"
  shows "model_class_for (task_of S rq) = Some (WanI2V, False) \<and> img = None"
  using assms
  by (simp add: generate_step_def run_generate_def call_generate_def model_class_for_def Let_def
        split: option.splits sum.splits if_splits)

lemma process_image_fst:
  "fst (process_image W st up) =
     (case up of
        None \<Rightarrow> Inr None
      | Some u \<Rightarrow> (case image_open W (content u) of
                     Inl msg \<Rightarrow> Inl (LibraryError msg) | Inr img \<Rightarrow> Inr (Some img)))"
  by (simp add: process_image_def split: option.splits sum.splits)

lemma app_generate_snd:
  "snd (app S W st (POST_generate rq)) = snd (generate_video S W st rq)"
  by (simp split: prod.splits)

lemma app_generate_fst:
  "fst (app S W st (POST_generate rq)) = fastapi (fst (generate_video S W st rq))"
  by (simp split: prod.splits)

lemma app_generate_generated:
  "generated (snd (app S W st (POST_generate rq))) = generated (snd (generate_video_try S W st rq))"
  by (simp del: app.simps add: app_generate_snd generate_video_snd split: sum.splits)

lemma app_generate_files:
  "files (snd (app S W st (POST_generate rq))) = files (snd (generate_video_try S W st rq))"
  by (simp del: app.simps add: app_generate_snd generate_video_snd split: sum.splits)

section \<open>Properties\<close>

subsection \<open>Health and metadata\<close>

text \<open>
  C6. The health and metadata routes always answer 200 with a JSON object of fixed shape:
  \<open>GET /health\<close> gives exactly \<open>{"status": "healthy"}\<close>; \<open>GET /\<close> gives an object with
  exactly the keys \<open>status\<close>, \<open>message\<close>, \<open>model_type\<close> and \<open>available_tasks\<close>;
  \<open>GET /tasks\<close> gives an object with exactly the keys \<open>available_tasks\<close> and
  \<open>current_task\<close>; in both, \<open>available_tasks\<close> is the list of keys of \<open>WAN_CONFIGS\<close>.
  None of them changes the state of the process.
\<close>

theorem metadata_endpoints_fixed_shape:
  "app S W st GET_health = (Response 200 (JSON (JObject [(''status'', JString ''healthy'')])), st)
   \<and> app S W st GET_root =
       (Response 200 (JSON (JObject
          [(''status'', JString ''healthy''),
           (''message'', JString ''Wan 2.2 Video Generation API''),
           (''model_type'', JString (MODEL_TYPE S)),
           (''available_tasks'', JArray (map JString (keys (WAN_CONFIGS S))))])), st)
   \<and> app S W st GET_tasks =
       (Response 200 (JSON (JObject
          [(''available_tasks'', JArray (map JString (keys (WAN_CONFIGS S)))),
           (''current_task'', JString (MODEL_TYPE S))])), st)"
  by (simp add: health_check_def root_def list_tasks_def)

text \<open>
  C4. \<open>GET /sizes/{task}\<close>: when the task is not a key of \<open>SUPPORTED_SIZES\<close> the answer is
  a JSON error with status 400; when it is a key, the answer has status 200 and a JSON
  object with exactly the fields \<open>task\<close>, the task of the request, and \<open>supported_sizes\<close>,
  the list configured for that task. The state of the process is unchanged.
\<close>

theorem list_sizes_endpoint:
  "(task \<notin> set (keys (SUPPORTED_SIZES S)) \<longrightarrow>
      app S W st (GET_sizes task) =
        (Response 400 (JSON (JObject [(''detail'', JString (''Unknown task: '' @ task))])), st))
   \<and> (task \<in> set (keys (SUPPORTED_SIZES S)) \<longrightarrow>
        (\<exists>sizes. map_of (SUPPORTED_SIZES S) task = Some sizes
           \<and> app S W st (GET_sizes task) =
               (Response 200 (JSON (JObject
                  [(''task'', JString task),
                   (''supported_sizes'', JArray (map JString sizes))])), st)))"
proof (cases "map_of (SUPPORTED_SIZES S) task")
  case None
  then have "task \<notin> set (keys (SUPPORTED_SIZES S))"
    by (simp add: keys_def map_of_eq_None_iff)
  with None show ?thesis by (simp add: list_sizes_def)
next
  case (Some sizes)
  then have "task \<in> set (keys (SUPPORTED_SIZES S))"
    using map_of_eq_None_iff [of "SUPPORTED_SIZES S" task] by (simp add: keys_def)
  with Some show ?thesis by (simp add: list_sizes_def)
qed

theorem list_sizes_endpoint_witness:
  "''bogus'' \<notin> set (keys (SUPPORTED_SIZES demo_settings))
   \<and> app demo_settings demo_world demo_state (GET_sizes ''bogus'') =
       (Response 400 (JSON (JObject [(''detail'', JString ''Unknown task: bogus'')])), demo_state)
   \<and> ''ti2v-5B'' \<in> set (keys (SUPPORTED_SIZES demo_settings))
   \<and> app demo_settings demo_world demo_state (GET_sizes ''ti2v-5B'') =
       (Response 200 (JSON (JObject
          [(''task'', JString ''ti2v-5B''),
           (''supported_sizes'', JArray [JString ''704*1280'', JString ''1280*704''])])),
        demo_state)"
proof -
  have a: "''bogus'' \<notin> set (keys (SUPPORTED_SIZES demo_settings))"
    by (simp add: keys_def demo_settings_def)
  have b: "''ti2v-5B'' \<in> set (keys (SUPPORTED_SIZES demo_settings))"
    by (simp add: keys_def demo_settings_def)
  have c: "map_of (SUPPORTED_SIZES demo_settings) ''ti2v-5B'' = Some [''704*1280'', ''1280*704'']"
    by (simp add: demo_settings_def)
  from a list_sizes_endpoint [of "''bogus''" demo_settings demo_world demo_state]
  have "app demo_settings demo_world demo_state (GET_sizes ''bogus'') =
       (Response 400 (JSON (JObject [(''detail'', JString (''Unknown task: '' @ ''bogus''))])),
        demo_state)"
    by blast
  moreover from b list_sizes_endpoint [of "''ti2v-5B''" demo_settings demo_world demo_state]
  obtain sizes where "map_of (SUPPORTED_SIZES demo_settings) ''ti2v-5B'' = Some sizes"
    and "app demo_settings demo_world demo_state (GET_sizes ''ti2v-5B'') =
           (Response 200 (JSON (JObject
              [(''task'', JString ''ti2v-5B''),
               (''supported_sizes'', JArray (map JString sizes))])), demo_state)"
    by blast
  ultimately show ?thesis using a b c by auto
qed

subsection \<open>Failures of POST /generate\<close>

text \<open>
  An exception raised at one of the three steps of a generation leaves the body of the
  \<open>try\<close> statement as it is.
\<close>

lemma model_loading_failure_propagates:
  assumes "map_of (WAN_CONFIGS S) (task_of S rq) = Some cfg"
    and "map_of (SIZE_CONFIGS S) (size_of rq) = Some sz"
    and "fst (process_image W st (form_image rq)) = Inr img"
    and "fst (get_model S W (snd (process_image W st (form_image rq))) (task_of S rq)) = Inl e"
  shows "fst (generate_video_try S W st rq) = Inl e"
  by (cases rule: generate_video_try_cases [where S = S and W = W and st = st and rq = rq])
    (use assms in simp_all)

lemma generate_failure_propagates:
  assumes "map_of (WAN_CONFIGS S) (task_of S rq) = Some cfg"
    and "map_of (SIZE_CONFIGS S) (size_of rq) = Some sz"
    and "fst (process_image W st (form_image rq)) = Inr img"
    and "fst (get_model S W (snd (process_image W st (form_image rq))) (task_of S rq)) = Inr model"
    and "fst (generate_step S W
           (snd (get_model S W (snd (process_image W st (form_image rq))) (task_of S rq)))
           rq cfg sz img model) = Inl e"
  shows "fst (generate_video_try S W st rq) = Inl e"
  by (cases rule: generate_video_try_cases [where S = S and W = W and st = st and rq = rq])
    (use assms in simp_all)

lemma save_failure_propagates:
  assumes "map_of (WAN_CONFIGS S) (task_of S rq) = Some cfg"
    and "map_of (SIZE_CONFIGS S) (size_of rq) = Some sz"
    and "fst (process_image W st (form_image rq)) = Inr img"
    and "fst (get_model S W (snd (process_image W st (form_image rq))) (task_of S rq)) = Inr model"
    and "fst (generate_step S W
           (snd (get_model S W (snd (process_image W st (form_image rq))) (task_of S rq)))
           rq cfg sz img model) = Inr video"
    and "save_video W video (str_path (joinpath (OUTPUT_DIR S) (uuid4 W @ ''.mp4'')))
           (sample_fps cfg) = Some msg"
  shows "fst (generate_video_try S W st rq) = Inl (LibraryError msg)"
  by (cases rule: generate_video_try_cases [where S = S and W = W and st = st and rq = rq])
    (use assms in \<open>simp_all add: save_and_return_def Let_def\<close>)

text \<open>
  C3. When a step of a generation (loading the model, the call of \<open>generate\<close>, saving the
  video) raises an exception, so that the body of the \<open>try\<close> statement raises it, the
  response has status 500 and its JSON detail is \<open>Video generation failed: \<close> followed by
  the message of the exception; in particular the detail contains that message.
\<close>

theorem generation_failure_is_500:
  assumes "fst (generate_video_try S W st rq) = Inl e"
  shows "\<exists>detail.
           fst (app S W st (POST_generate rq)) =
             Response 500 (JSON (JObject [(''detail'', JString detail)]))
         \<and> detail = ''Video generation failed: '' @ exc_str e
         \<and> sublist (exc_str e) detail"
proof -
  have "fst (app S W st (POST_generate rq)) =
          Response 500 (JSON (JObject
            [(''detail'', JString (''Video generation failed: '' @ exc_str e))]))"
    using assms by (simp del: app.simps add: app_generate_fst generate_video_fst)
  moreover have "sublist (exc_str e) (''Video generation failed: '' @ exc_str e)"
    by (rule sublist_append_leftI)
  ultimately show ?thesis by blast
qed

theorem generation_failure_is_500_witness:
  "fst (generate_video_try demo_settings (demo_world\<lparr>path_exists := \<lambda>p. False\<rparr>) demo_state
          demo_form)
     = Inl (FileNotFoundError ''Model checkpoint not found at ./models/Wan2.2-TI2V-5B'')
   \<and> fst (app demo_settings (demo_world\<lparr>path_exists := \<lambda>p. False\<rparr>) demo_state
          (POST_generate demo_form))
     = Response 500 (JSON (JObject [(''detail'',
         JString ''Video generation failed: Model checkpoint not found at ./models/Wan2.2-TI2V-5B'')]))
   \<and> fst (generate_video_try demo_settings
          (demo_world\<lparr>model_generate := \<lambda>model args. Inl ''CUDA out of memory''\<rparr>) demo_state
          demo_form)
     = Inl (LibraryError ''CUDA out of memory'')
   \<and> fst (app demo_settings
          (demo_world\<lparr>model_generate := \<lambda>model args. Inl ''CUDA out of memory''\<rparr>) demo_state
          (POST_generate demo_form))
     = Response 500 (JSON (JObject [(''detail'',
         JString ''Video generation failed: CUDA out of memory'')]))
   \<and> fst (generate_video_try demo_settings
          (demo_world\<lparr>save_video := \<lambda>video file fps. Some ''No space left on device''\<rparr>)
          demo_state demo_form)
     = Inl (LibraryError ''No space left on device'')
   \<and> fst (app demo_settings
          (demo_world\<lparr>save_video := \<lambda>video file fps. Some ''No space left on device''\<rparr>)
          demo_state (POST_generate demo_form))
     = Response 500 (JSON (JObject [(''detail'',
         JString ''Video generation failed: No space left on device'')]))"
proof -
  let ?W1 = "demo_world\<lparr>path_exists := \<lambda>p. False\<rparr>"
  let ?W2 = "demo_world\<lparr>model_generate := \<lambda>model args. Inl ''CUDA out of memory''\<rparr>"
  let ?W3 = "demo_world\<lparr>save_video := \<lambda>video file fps. Some ''No space left on device''\<rparr>"
  have a: "fst (generate_video_try demo_settings ?W1 demo_state demo_form)
     = Inl (FileNotFoundError ''Model checkpoint not found at ./models/Wan2.2-TI2V-5B'')"
    by code_simp
  have b: "fst (generate_video_try demo_settings ?W2 demo_state demo_form)
     = Inl (LibraryError ''CUDA out of memory'')"
    by code_simp
  have c: "fst (generate_video_try demo_settings ?W3 demo_state demo_form)
     = Inl (LibraryError ''No space left on device'')"
    by code_simp
  from generation_failure_is_500 [OF a] generation_failure_is_500 [OF b]
    generation_failure_is_500 [OF c] a b c
  show ?thesis by simp
qed

text \<open>
  The same \<open>except\<close> clause also catches the exceptions with status 400 that the body
  raises to reject a request: \<open>POST /generate\<close> answers 200 or 500 and nothing else.
\<close>

lemma generate_video_status:
  "status_code (fst (app S W st (POST_generate rq))) = 200
   \<or> status_code (fst (app S W st (POST_generate rq))) = 500"
proof (cases "fst (generate_video_try S W st rq)")
  case (Inl e)
  then show ?thesis
    by (simp del: app.simps add: app_generate_fst generate_video_fst)
next
  case (Inr r)
  then show ?thesis
    by (cases r) (simp_all del: app.simps add: app_generate_fst generate_video_fst)
qed

lemma invalid_request_status:
  assumes "map_of (WAN_CONFIGS S) (task_of S rq) = None
           \<or> map_of (SIZE_CONFIGS S) (size_of rq) = None"
  shows "status_code (fst (app S W st (POST_generate rq))) = 500"
proof -
  have "\<exists>e. fst (generate_video_try S W st rq) = Inl e"
    using assms by (auto simp add: generate_video_try_def Let_def split: option.splits)
  then show ?thesis
    by (auto simp del: app.simps simp add: app_generate_fst generate_video_fst)
qed

text \<open>
  C1. A request to \<open>POST /generate\<close> whose task is not a key of \<open>WAN_CONFIGS\<close>, or whose
  size is not a key of \<open>SIZE_CONFIGS\<close>, is meant to be answered with status 400. The body
  raises \<open>HTTPException(status_code=400)\<close> for it, but the response that leaves the handler
  has status 500. Evaluated for the task \<open>bogus\<close> and for the size \<open>1x1\<close>.
\<close>

theorem unknown_task_or_size_gets_500:
  "fst (generate_video_try demo_settings demo_world demo_state
          (demo_form\<lparr>form_task := Some ''bogus''\<rparr>))
     = Inl (HTTPException 400 ''Unsupported task: bogus'')
   \<and> fst (app demo_settings demo_world demo_state
          (POST_generate (demo_form\<lparr>form_task := Some ''bogus''\<rparr>)))
     = Response 500 (JSON (JObject [(''detail'',
         JString ''Video generation failed: 400: Unsupported task: bogus'')]))
   \<and> fst (generate_video_try demo_settings demo_world demo_state
          (demo_form\<lparr>form_size := Some ''1x1''\<rparr>))
     = Inl (HTTPException 400 ''Unsupported size: 1x1'')
   \<and> fst (app demo_settings demo_world demo_state
          (POST_generate (demo_form\<lparr>form_size := Some ''1x1''\<rparr>)))
     = Response 500 (JSON (JObject [(''detail'',
         JString ''Video generation failed: 400: Unsupported size: 1x1'')]))"
  by code_simp

text \<open>
  C2. A request to \<open>POST /generate\<close> for an image-to-video task without an image is meant
  to be answered with status 400. The body raises \<open>HTTPException(status_code=400)\<close> for
  it, after the model has been loaded, but the response that leaves the handler has status
  500. Evaluated for the task \<open>i2v-A14B\<close>.
\<close>

theorem i2v_without_image_gets_500:
  "fst (generate_video_try demo_settings demo_world demo_state
          (demo_form\<lparr>form_task := Some ''i2v-A14B''\<rparr>))
     = Inl (HTTPException 400 ''Image is required for i2v task'')
   \<and> fst (app demo_settings demo_world demo_state
          (POST_generate (demo_form\<lparr>form_task := Some ''i2v-A14B''\<rparr>)))
     = Response 500 (JSON (JObject [(''detail'',
         JString ''Video generation failed: 400: Image is required for i2v task'')]))"
  by code_simp

subsection \<open>The model cache\<close>

text \<open>
  C5. \<open>get_model\<close> is lazy and caches per task for the life of the process. The first
  call for a valid task (the task is not yet in the cache and is a key of \<open>WAN_CONFIGS\<close>)
  constructs a model and stores it in the cache: when the checkpoint directory exists, the
  name selects a model class and the constructor of that class returns a model, this one
  constructor call is made, the model is returned and the cache maps the task to it.
  Every later call for the same task, whatever requests the process has served in between
  and whatever the world has become, returns the identical model and changes nothing: no
  constructor is called.
\<close>

theorem get_model_lazy_cache:
  assumes miss: "model_cache st task = None"
    and valid: "map_of (WAN_CONFIGS S) task = Some cfg"
    and ckpt: "path_exists W (checkpoint_path S task)"
    and cls: "model_class_for task = Some (cls, cpu)"
    and ctor: "construct W cls (model_args S cfg (checkpoint_path S task) cpu) = Inr m"
  shows "fst (get_model S W st task) = Inr m
     \<and> model_cache (snd (get_model S W st task)) = (model_cache st)(task \<mapsto> m)
     \<and> constructed (snd (get_model S W st task)) =
         constructed st @ [(cls, model_args S cfg (checkpoint_path S task) cpu, Inr m)]
     \<and> (\<forall>reqs W'. get_model S W' (serve S (snd (get_model S W st task)) reqs) task =
           (Inr m, serve S (snd (get_model S W st task)) reqs))"
proof -
  note first = get_model_first [OF miss valid ckpt cls ctor]
  have "model_cache (snd (get_model S W st task)) task = Some m"
    by (simp add: first(2))
  then have "model_cache (serve S (snd (get_model S W st task)) reqs) task = Some m" for reqs
    by (rule serve_cache_keeps)
  then have "get_model S W' (serve S (snd (get_model S W st task)) reqs) task =
           (Inr m, serve S (snd (get_model S W st task)) reqs)" for reqs W'
    by (rule get_model_hit)
  with first show ?thesis by blast
qed

theorem get_model_lazy_cache_witness:
  "model_cache demo_state ''ti2v-5B'' = None
   \<and> map_of (WAN_CONFIGS demo_settings) ''ti2v-5B'' = Some cfg_ti2v_5B
   \<and> path_exists demo_world (checkpoint_path demo_settings ''ti2v-5B'')
   \<and> model_class_for ''ti2v-5B'' = Some (WanTI2V, True)
   \<and> fst (get_model demo_settings demo_world demo_state ''ti2v-5B'')
       = Inr ''model of ./models/Wan2.2-TI2V-5B''
   \<and> model_cache (snd (get_model demo_settings demo_world demo_state ''ti2v-5B'')) ''ti2v-5B''
       = Some ''model of ./models/Wan2.2-TI2V-5B''
   \<and> length (constructed (snd (get_model demo_settings demo_world demo_state ''ti2v-5B''))) = 1
   \<and> get_model demo_settings (demo_world\<lparr>path_exists := \<lambda>p. False\<rparr>)
         (serve demo_settings (snd (get_model demo_settings demo_world demo_state ''ti2v-5B''))
            [(demo_world, POST_generate demo_form), (demo_world, GET_health)]) ''ti2v-5B''
       = (Inr ''model of ./models/Wan2.2-TI2V-5B'',
          serve demo_settings (snd (get_model demo_settings demo_world demo_state ''ti2v-5B''))
            [(demo_world, POST_generate demo_form), (demo_world, GET_health)])"
proof -
  have a: "model_cache demo_state ''ti2v-5B'' = None"
    by (simp add: demo_state_def initial_def)
  have b: "map_of (WAN_CONFIGS demo_settings) ''ti2v-5B'' = Some cfg_ti2v_5B"
    by (simp add: demo_settings_def)
  have c: "path_exists demo_world (checkpoint_path demo_settings ''ti2v-5B'')"
    by code_simp
  have d: "model_class_for ''ti2v-5B'' = Some (WanTI2V, True)"
    by code_simp
  have e: "construct demo_world WanTI2V
             (model_args demo_settings cfg_ti2v_5B (checkpoint_path demo_settings ''ti2v-5B'') True)
           = Inr ''model of ./models/Wan2.2-TI2V-5B''"
    by code_simp
  have f: "constructed demo_state = []"
    by (simp add: demo_state_def initial_def)
  note inst = get_model_lazy_cache [OF a b c d e]
  from inst have g: "fst (get_model demo_settings demo_world demo_state ''ti2v-5B'')
       = Inr ''model of ./models/Wan2.2-TI2V-5B''"
    by blast
  from inst
  have h: "model_cache (snd (get_model demo_settings demo_world demo_state ''ti2v-5B'')) ''ti2v-5B''
       = Some ''model of ./models/Wan2.2-TI2V-5B''"
    by simp
  from inst f
  have i: "length (constructed (snd (get_model demo_settings demo_world demo_state ''ti2v-5B''))) = 1"
    by simp
  from inst
  have j: "get_model demo_settings (demo_world\<lparr>path_exists := \<lambda>p. False\<rparr>)
         (serve demo_settings (snd (get_model demo_settings demo_world demo_state ''ti2v-5B''))
            [(demo_world, POST_generate demo_form), (demo_world, GET_health)]) ''ti2v-5B''
       = (Inr ''model of ./models/Wan2.2-TI2V-5B'',
          serve demo_settings (snd (get_model demo_settings demo_world demo_state ''ti2v-5B''))
            [(demo_world, POST_generate demo_form), (demo_world, GET_health)])"
    by blast
  show ?thesis
    by (intro conjI) (rule a b c d g h i j)+
qed

text \<open>
  C9. When \<open>get_model\<close> raises, for whatever reason, the cache is left as it was. So at any
  moment of the life of the process, which starts with an empty cache and serves any
  sequence of requests, every key of the cache is a key of \<open>WAN_CONFIGS\<close>, and the model
  stored under it was returned by a recorded call of the constructor that the key selects,
  for the checkpoint of that key.
\<close>

theorem get_model_failure_keeps_cache:
  "(fst (get_model S W st task) = Inl e \<longrightarrow>
      model_cache (snd (get_model S W st task)) = model_cache st)
   \<and> (model_cache (serve S (initial fs) reqs) t = Some m \<longrightarrow>
        t \<in> set (keys (WAN_CONFIGS S))
        \<and> (\<exists>cfg cls cpu. map_of (WAN_CONFIGS S) t = Some cfg
              \<and> model_class_for t = Some (cls, cpu)
              \<and> (cls, model_args S cfg (checkpoint_path S t) cpu, Inr m)
                    \<in> set (constructed (serve S (initial fs) reqs))))"
proof (intro conjI impI)
  assume "fst (get_model S W st task) = Inl e"
  then show "model_cache (snd (get_model S W st task)) = model_cache st"
    by (rule get_model_raise)
next
  assume hit: "model_cache (serve S (initial fs) reqs) t = Some m"
  have "cache_ok S (serve S (initial fs) reqs)"
    by (rule serve_cache_ok) (rule initial_cache_ok)
  with hit obtain cfg cls cpu where entry: "map_of (WAN_CONFIGS S) t = Some cfg"
    "model_class_for t = Some (cls, cpu)"
    "(cls, model_args S cfg (checkpoint_path S t) cpu, Inr m)
       \<in> set (constructed (serve S (initial fs) reqs))"
    unfolding cache_ok_def by blast
  from entry(1) have "(t, cfg) \<in> set (WAN_CONFIGS S)" by (rule map_of_SomeD)
  then show "t \<in> set (keys (WAN_CONFIGS S))" by (force simp add: keys_def)
  from entry show "\<exists>cfg cls cpu. map_of (WAN_CONFIGS S) t = Some cfg
              \<and> model_class_for t = Some (cls, cpu)
              \<and> (cls, model_args S cfg (checkpoint_path S t) cpu, Inr m)
                    \<in> set (constructed (serve S (initial fs) reqs))"
    by blast
qed

theorem get_model_failure_keeps_cache_witness:
  "fst (get_model demo_settings demo_world demo_state ''bogus'')
     = Inl (ValueError ''Unsupported task: bogus'')
   \<and> model_cache (snd (get_model demo_settings demo_world demo_state ''bogus''))
     = model_cache demo_state
   \<and> fst (get_model demo_settings (demo_world\<lparr>path_exists := \<lambda>p. False\<rparr>) demo_state ''ti2v-5B'')
     = Inl (FileNotFoundError ''Model checkpoint not found at ./models/Wan2.2-TI2V-5B'')
   \<and> model_cache (snd (get_model demo_settings (demo_world\<lparr>path_exists := \<lambda>p. False\<rparr>)
                          demo_state ''ti2v-5B''))
     = model_cache demo_state
   \<and> fst (get_model demo_settings (demo_world\<lparr>construct := \<lambda>cls args. Inl ''CUDA out of memory''\<rparr>)
            demo_state ''ti2v-5B'')
     = Inl (LibraryError ''CUDA out of memory'')
   \<and> model_cache (snd (get_model demo_settings
                          (demo_world\<lparr>construct := \<lambda>cls args. Inl ''CUDA out of memory''\<rparr>)
                          demo_state ''ti2v-5B''))
     = model_cache demo_state
   \<and> model_cache (serve demo_settings (initial Map.empty) [(demo_world, POST_generate demo_form)])
        ''ti2v-5B''
     = Some ''model of ./models/Wan2.2-TI2V-5B''
   \<and> ''ti2v-5B'' \<in> set (keys (WAN_CONFIGS demo_settings))
   \<and> (WanTI2V, model_args demo_settings cfg_ti2v_5B (checkpoint_path demo_settings ''ti2v-5B'') True,
        Inr ''model of ./models/Wan2.2-TI2V-5B'')
       \<in> set (constructed
                (serve demo_settings (initial Map.empty) [(demo_world, POST_generate demo_form)]))"
proof -
  let ?W1 = "demo_world\<lparr>path_exists := \<lambda>p. False\<rparr>"
  let ?W2 = "demo_world\<lparr>construct := \<lambda>cls args. Inl ''CUDA out of memory''\<rparr>"
  let ?st = "serve demo_settings (initial Map.empty) [(demo_world, POST_generate demo_form)]"
  have a: "fst (get_model demo_settings demo_world demo_state ''bogus'')
     = Inl (ValueError ''Unsupported task: bogus'')"
    by code_simp
  have b: "fst (get_model demo_settings ?W1 demo_state ''ti2v-5B'')
     = Inl (FileNotFoundError ''Model checkpoint not found at ./models/Wan2.2-TI2V-5B'')"
    by code_simp
  have c: "fst (get_model demo_settings ?W2 demo_state ''ti2v-5B'')
     = Inl (LibraryError ''CUDA out of memory'')"
    by code_simp
  have d: "model_cache ?st ''ti2v-5B'' = Some ''model of ./models/Wan2.2-TI2V-5B''"
    by code_simp
  have e: "map_of (WAN_CONFIGS demo_settings) ''ti2v-5B'' = Some cfg_ti2v_5B"
    by (simp add: demo_settings_def)
  have f: "model_class_for ''ti2v-5B'' = Some (WanTI2V, True)"
    by code_simp
  note a' = get_model_failure_keeps_cache [THEN conjunct1, THEN mp, OF a]
  note b' = get_model_failure_keeps_cache [THEN conjunct1, THEN mp, OF b]
  note c' = get_model_failure_keeps_cache [THEN conjunct1, THEN mp, OF c]
  note d' = get_model_failure_keeps_cache [THEN conjunct2, THEN mp, OF d]
  from d' have g: "''ti2v-5B'' \<in> set (keys (WAN_CONFIGS demo_settings))"
    by (rule conjunct1)
  from d' have "\<exists>cfg cls cpu. map_of (WAN_CONFIGS demo_settings) ''ti2v-5B'' = Some cfg
           \<and> model_class_for ''ti2v-5B'' = Some (cls, cpu)
           \<and> (cls, model_args demo_settings cfg (checkpoint_path demo_settings ''ti2v-5B'') cpu,
                Inr ''model of ./models/Wan2.2-TI2V-5B'') \<in> set (constructed ?st)"
    by (rule conjunct2)
  with e f
  have h: "(WanTI2V, model_args demo_settings cfg_ti2v_5B (checkpoint_path demo_settings ''ti2v-5B'') True,
        Inr ''model of ./models/Wan2.2-TI2V-5B'') \<in> set (constructed ?st)"
    by auto
  show ?thesis
    by (intro conjI) (rule a a' b b' c c' d g h)+
qed

subsection \<open>Generated videos\<close>

lemma parent_joinpath: "parent (joinpath p name) = p"
  by (cases p) (simp add: parent_def joinpath_def)

lemma path_name_joinpath: "path_name (joinpath p name) = name"
  by (simp add: path_name_def joinpath_def)

text \<open>
  A request whose body returns went through every step: one call of \<open>generate\<close> returned a
  video, \<open>save_video\<close> wrote it to the fresh path, and that path is what the body returns.
\<close>

lemma generate_video_try_returns:
  assumes "fst (generate_video_try S W st rq) = Inr r"
  shows "\<exists>model a video.
           r = FileResponse (joinpath (OUTPUT_DIR S) (uuid4 W @ ''.mp4'')) ''video/mp4''
                 (''wan_video_'' @ uuid4 W @ ''.mp4'')
         \<and> generated (snd (generate_video_try S W st rq)) = generated st @ [(model, a)]
         \<and> model_generate W model a = Inr video
         \<and> files (snd (generate_video_try S W st rq))
             = (files st)(str_path (joinpath (OUTPUT_DIR S) (uuid4 W @ ''.mp4'')) \<mapsto> video)"
proof (cases rule: generate_video_try_cases [where S = S and W = W and st = st and rq = rq])
  case (saved cfg sz img model video)
  let ?gm = "get_model S W (snd (process_image W st (form_image rq))) (task_of S rq)"
  let ?gs = "generate_step S W (snd ?gm) rq cfg sz img model"
  from generate_step_returns [OF saved(5)] obtain a where
    a: "generated (snd ?gs) = generated (snd ?gm) @ [(model, a)]"
      "model_generate W model a = Inr video"
    by blast
  from assms saved(6)
  have ok: "save_video W video (str_path (joinpath (OUTPUT_DIR S) (uuid4 W @ ''.mp4'')))
              (sample_fps cfg) = None"
    by (simp add: save_and_return_def Let_def split: option.splits)
  with assms saved(6)
  have "r = FileResponse (joinpath (OUTPUT_DIR S) (uuid4 W @ ''.mp4'')) ''video/mp4''
                 (''wan_video_'' @ uuid4 W @ ''.mp4'')"
    by (simp add: save_and_return_def Let_def)
  moreover from saved(6) a(1)
  have "generated (snd (generate_video_try S W st rq)) = generated st @ [(model, a)]"
    by simp
  moreover from saved(6) ok
  have "files (snd (generate_video_try S W st rq))
             = (files st)(str_path (joinpath (OUTPUT_DIR S) (uuid4 W @ ''.mp4'')) \<mapsto> video)"
    by (simp add: save_and_return_def Let_def)
  ultimately show ?thesis using a(2) by blast
qed (use assms in simp_all)

text \<open>
  C7. For every successful request to \<open>POST /generate\<close> (the response has status 200), the
  video that the call of \<open>generate\<close> returned is written to the file \<open><uuid4>.mp4\<close> in the
  output directory \<open>OUTPUT_DIR\<close>, the response serves exactly that file with the media type
  \<open>video/mp4\<close>, and the service never deletes it: the file is there after any sequence of
  later requests.
\<close>

theorem generated_video_saved_and_served:
  assumes "status_code (fst (app S W st (POST_generate rq))) = 200"
  shows "fst (app S W st (POST_generate rq)) =
           Response 200 (File (joinpath (OUTPUT_DIR S) (uuid4 W @ ''.mp4'')) ''video/mp4''
                           (''wan_video_'' @ uuid4 W @ ''.mp4''))
     \<and> parent (joinpath (OUTPUT_DIR S) (uuid4 W @ ''.mp4'')) = OUTPUT_DIR S
     \<and> path_name (joinpath (OUTPUT_DIR S) (uuid4 W @ ''.mp4'')) = uuid4 W @ ''.mp4''
     \<and> (\<exists>model args video.
           new_calls st (snd (app S W st (POST_generate rq))) = [(model, args)]
         \<and> model_generate W model args = Inr video
         \<and> files (snd (app S W st (POST_generate rq)))
               (str_path (joinpath (OUTPUT_DIR S) (uuid4 W @ ''.mp4''))) = Some video)
     \<and> (\<forall>reqs. files (serve S (snd (app S W st (POST_generate rq))) reqs)
                   (str_path (joinpath (OUTPUT_DIR S) (uuid4 W @ ''.mp4''))) \<noteq> None)"
proof -
  let ?out = "joinpath (OUTPUT_DIR S) (uuid4 W @ ''.mp4'')"
  let ?st' = "snd (app S W st (POST_generate rq))"
  obtain r where r: "fst (generate_video_try S W st rq) = Inr r"
    using assms
    by (cases "fst (generate_video_try S W st rq)")
      (simp_all del: app.simps add: app_generate_fst generate_video_fst)
  from generate_video_try_returns [OF r] obtain model a video where
    ret: "r = FileResponse ?out ''video/mp4'' (''wan_video_'' @ uuid4 W @ ''.mp4'')"
    and gen: "generated (snd (generate_video_try S W st rq)) = generated st @ [(model, a)]"
    and vid: "model_generate W model a = Inr video"
    and fil: "files (snd (generate_video_try S W st rq)) = (files st)(str_path ?out \<mapsto> video)"
    by blast
  have resp: "fst (app S W st (POST_generate rq)) =
           Response 200 (File ?out ''video/mp4'' (''wan_video_'' @ uuid4 W @ ''.mp4''))"
    using r ret by (simp del: app.simps add: app_generate_fst generate_video_fst)
  have calls: "new_calls st ?st' = [(model, a)]"
    using gen by (simp del: app.simps add: new_calls_append app_generate_generated)
  have saved: "files ?st' (str_path ?out) = Some video"
    using fil by (simp del: app.simps add: app_generate_files)
  then have kept: "files (serve S ?st' reqs) (str_path ?out) \<noteq> None" for reqs
    by (intro serve_files) simp
  from resp calls vid saved kept show ?thesis
    by (simp only: parent_joinpath path_name_joinpath) blast
qed

theorem generated_video_saved_and_served_witness:
  "status_code (fst (app demo_settings demo_world demo_state (POST_generate demo_form))) = 200
   \<and> fst (app demo_settings demo_world demo_state (POST_generate demo_form)) =
       Response 200
         (File (Path [''/'', ''tmp'', ''outputs'', ''0f8fad5b-d9cb-469f-a165-70867728950e.mp4''])
            ''video/mp4'' ''wan_video_0f8fad5b-d9cb-469f-a165-70867728950e.mp4'')
   \<and> files (snd (app demo_settings demo_world demo_state (POST_generate demo_form)))
         ''/tmp/outputs/0f8fad5b-d9cb-469f-a165-70867728950e.mp4'' = Some ''video of a cat''
   \<and> files (serve demo_settings
               (snd (app demo_settings demo_world demo_state (POST_generate demo_form)))
               [(demo_world\<lparr>uuid4 := ''7c9e6679-7425-40de-944b-e07fc1f90ae7''\<rparr>,
                 POST_generate demo_form),
                (demo_world, GET_root)])
         ''/tmp/outputs/0f8fad5b-d9cb-469f-a165-70867728950e.mp4'' \<noteq> None"
proof -
  have a: "status_code (fst (app demo_settings demo_world demo_state (POST_generate demo_form)))
             = 200"
    by code_simp
  have p: "joinpath (OUTPUT_DIR demo_settings) (uuid4 demo_world @ ''.mp4'')
             = Path [''/'', ''tmp'', ''outputs'', ''0f8fad5b-d9cb-469f-a165-70867728950e.mp4'']"
    by code_simp
  have q: "str_path (Path [''/'', ''tmp'', ''outputs'',
                           ''0f8fad5b-d9cb-469f-a165-70867728950e.mp4''])
             = ''/tmp/outputs/0f8fad5b-d9cb-469f-a165-70867728950e.mp4''"
    by code_simp
  have n: "''wan_video_'' @ uuid4 demo_world @ ''.mp4''
             = ''wan_video_0f8fad5b-d9cb-469f-a165-70867728950e.mp4''"
    by code_simp
  have v: "files (snd (app demo_settings demo_world demo_state (POST_generate demo_form)))
         ''/tmp/outputs/0f8fad5b-d9cb-469f-a165-70867728950e.mp4'' = Some ''video of a cat''"
    by code_simp
  note inst = generated_video_saved_and_served [OF a, unfolded p q n]
  from inst have b: "fst (app demo_settings demo_world demo_state (POST_generate demo_form)) =
       Response 200
         (File (Path [''/'', ''tmp'', ''outputs'', ''0f8fad5b-d9cb-469f-a165-70867728950e.mp4''])
            ''video/mp4'' ''wan_video_0f8fad5b-d9cb-469f-a165-70867728950e.mp4'')"
    by (rule conjunct1)
  from inst have c: "files (serve demo_settings
               (snd (app demo_settings demo_world demo_state (POST_generate demo_form)))
               [(demo_world\<lparr>uuid4 := ''7c9e6679-7425-40de-944b-e07fc1f90ae7''\<rparr>,
                 POST_generate demo_form),
                (demo_world, GET_root)])
         ''/tmp/outputs/0f8fad5b-d9cb-469f-a165-70867728950e.mp4'' \<noteq> None"
    by blast
  show ?thesis
    by (intro conjI) (rule a b v c)+
qed

subsection \<open>The arguments of generate\<close>

text \<open>
  The calls of \<open>generate\<close> that a request makes: at most one, for the configuration of the
  task, with the resolved parameters.
\<close>

lemma generate_video_try_calls:
  "\<exists>cs. generated (snd (generate_video_try S W st rq)) = generated st @ cs
     \<and> length cs \<le> 1
     \<and> (\<forall>c \<in> set cs. \<exists>cfg. map_of (WAN_CONFIGS S) (task_of S rq) = Some cfg
           \<and> arg_prompt (snd c) = form_prompt rq
           \<and> arg_sampling_steps (snd c) = resolve_sample_steps cfg rq
           \<and> arg_guide_scale (snd c) = resolve_guide_scale cfg rq
           \<and> arg_frame_num (snd c) = resolve_frame_num cfg rq
           \<and> arg_seed (snd c) = resolve_seed W rq
           \<and> arg_shift (snd c) = sample_shift cfg)"
proof -
  let ?gm = "get_model S W (snd (process_image W st (form_image rq))) (task_of S rq)"
  have step: ?thesis
    if cfg: "map_of (WAN_CONFIGS S) (task_of S rq) = Some cfg"
      and eq: "generated (snd (generate_video_try S W st rq))
                 = generated (snd (generate_step S W (snd ?gm) rq cfg sz img model))"
    for cfg sz img model
  proof -
    from generate_step_calls [of S W "snd ?gm" rq cfg sz img model] obtain cs where
      cs: "generated (snd (generate_step S W (snd ?gm) rq cfg sz img model))
             = generated (snd ?gm) @ cs"
        "length cs \<le> 1"
        "\<forall>c \<in> set cs. fst c = model
           \<and> arg_prompt (snd c) = form_prompt rq
           \<and> arg_sampling_steps (snd c) = resolve_sample_steps cfg rq
           \<and> arg_guide_scale (snd c) = resolve_guide_scale cfg rq
           \<and> arg_frame_num (snd c) = resolve_frame_num cfg rq
           \<and> arg_seed (snd c) = resolve_seed W rq
           \<and> arg_shift (snd c) = sample_shift cfg"
      by blast
    from eq cs(1) have "generated (snd (generate_video_try S W st rq)) = generated st @ cs"
      by simp
    with cs(2,3) cfg show ?thesis by blast
  qed
  show ?thesis
  proof (cases rule: generate_video_try_cases [where S = S and W = W and st = st and rq = rq])
    case (generate_error cfg sz img model e)
    then show ?thesis by (intro step [of cfg sz img model]) simp_all
  next
    case (saved cfg sz img model video)
    then show ?thesis by (intro step [of cfg sz img model]) simp_all
  qed (simp_all add: exI [of _ "[]"])
qed

text \<open>
  C8. For a request to \<open>POST /generate\<close> with a valid task, each of \<open>sample_steps\<close>,
  \<open>guide_scale\<close> and \<open>frame_num\<close> that the form leaves out reaches \<open>generate\<close> as the
  field \<open>sample_steps\<close>, \<open>sample_guide_scale\<close> or \<open>frame_num\<close> of the task's entry of
  \<open>WAN_CONFIGS\<close>, and each that the form supplies reaches it unchanged: this holds of every
  call of \<open>generate\<close> that the request makes.
\<close>

theorem defaults_resolved:
  assumes "map_of (WAN_CONFIGS S) (task_of S rq) = Some cfg"
  shows "generated (snd (app S W st (POST_generate rq)))
           = generated st @ new_calls st (snd (app S W st (POST_generate rq)))
     \<and> (\<forall>c \<in> set (new_calls st (snd (app S W st (POST_generate rq)))).
           arg_sampling_steps (snd c)
             = (case form_sample_steps rq of None \<Rightarrow> sample_steps cfg | Some n \<Rightarrow> n)
         \<and> arg_guide_scale (snd c)
             = (case form_guide_scale rq of None \<Rightarrow> sample_guide_scale cfg | Some g \<Rightarrow> g)
         \<and> arg_frame_num (snd c)
             = (case form_frame_num rq of None \<Rightarrow> frame_num cfg | Some n \<Rightarrow> n))"
proof -
  from generate_video_try_calls [of S W st rq] obtain cs where
    cs: "generated (snd (generate_video_try S W st rq)) = generated st @ cs"
      "\<forall>c \<in> set cs. \<exists>cfg. map_of (WAN_CONFIGS S) (task_of S rq) = Some cfg
           \<and> arg_prompt (snd c) = form_prompt rq
           \<and> arg_sampling_steps (snd c) = resolve_sample_steps cfg rq
           \<and> arg_guide_scale (snd c) = resolve_guide_scale cfg rq
           \<and> arg_frame_num (snd c) = resolve_frame_num cfg rq
           \<and> arg_seed (snd c) = resolve_seed W rq
           \<and> arg_shift (snd c) = sample_shift cfg"
    by blast
  have new: "new_calls st (snd (app S W st (POST_generate rq))) = cs"
    using cs(1) by (simp del: app.simps add: new_calls_append app_generate_generated)
  have "arg_sampling_steps (snd c) = resolve_sample_steps cfg rq
      \<and> arg_guide_scale (snd c) = resolve_guide_scale cfg rq
      \<and> arg_frame_num (snd c) = resolve_frame_num cfg rq" if "c \<in> set cs" for c
    using cs(2) that assms by fastforce
  then show ?thesis
    using cs(1) unfolding new
    by (simp del: app.simps add: app_generate_generated resolve_sample_steps_def
          resolve_guide_scale_def resolve_frame_num_def)
qed

theorem defaults_resolved_witness:
  "map_of (WAN_CONFIGS demo_settings) (task_of demo_settings demo_form) = Some cfg_ti2v_5B
   \<and> map (\<lambda>c. (arg_sampling_steps (snd c), arg_guide_scale (snd c), arg_frame_num (snd c)))
         (new_calls demo_state (snd (app demo_settings demo_world demo_state
            (POST_generate demo_form))))
       = [(50, ''5.0'', 121)]
   \<and> map (\<lambda>c. (arg_sampling_steps (snd c), arg_guide_scale (snd c), arg_frame_num (snd c)))
         (new_calls demo_state (snd (app demo_settings demo_world demo_state
            (POST_generate (demo_form\<lparr>form_frame_num := Some 49, form_sample_steps := Some 20,
               form_guide_scale := Some ''7.5''\<rparr>)))))
       = [(20, ''7.5'', 49)]"
proof -
  let ?rq = "demo_form\<lparr>form_frame_num := Some 49, form_sample_steps := Some 20,
               form_guide_scale := Some ''7.5''\<rparr>"
  let ?nc1 = "new_calls demo_state (snd (app demo_settings demo_world demo_state
            (POST_generate demo_form)))"
  let ?nc2 = "new_calls demo_state (snd (app demo_settings demo_world demo_state
            (POST_generate ?rq)))"
  have a: "map_of (WAN_CONFIGS demo_settings) (task_of demo_settings demo_form) = Some cfg_ti2v_5B"
    by code_simp
  have b: "map_of (WAN_CONFIGS demo_settings) (task_of demo_settings ?rq) = Some cfg_ti2v_5B"
    by code_simp
  have l1: "length ?nc1 = 1" by code_simp
  have l2: "length ?nc2 = 1" by code_simp
  from l1 obtain c1 where c1: "?nc1 = [c1]"
    by (cases ?nc1) simp_all
  from l2 obtain c2 where c2: "?nc2 = [c2]"
    by (cases ?nc2) simp_all
  from defaults_resolved [OF a, of demo_world demo_state] c1
  have "arg_sampling_steps (snd c1) = 50 \<and> arg_guide_scale (snd c1) = ''5.0''
      \<and> arg_frame_num (snd c1) = 121"
    by (simp del: app.simps add: demo_form_def cfg_ti2v_5B_def)
  moreover from defaults_resolved [OF b, of demo_world demo_state] c2
  have "arg_sampling_steps (snd c2) = 20 \<and> arg_guide_scale (snd c2) = ''7.5''
      \<and> arg_frame_num (snd c2) = 49"
    by (simp del: app.simps add: demo_form_def cfg_ti2v_5B_def)
  ultimately show ?thesis
    using a c1 c2 by (simp del: app.simps)
qed

text \<open>The steps around the call of \<open>generate\<close> raise no \<open>HTTPException\<close>.\<close>

lemma get_model_no_http: "fst (get_model S W st task) \<noteq> Inl (HTTPException code detail)"
  by (simp add: get_model_def init_model_def Let_def split: option.splits sum.splits)

lemma process_image_no_http: "fst (process_image W st up) \<noteq> Inl (HTTPException code detail)"
  by (simp add: process_image_fst split: option.splits sum.splits)

lemma save_and_return_no_http:
  "fst (save_and_return S W st cfg video) \<noteq> Inl (HTTPException code detail)"
  by (simp add: save_and_return_def Let_def split: option.splits)

lemma generate_step_ti2v_no_http:
  assumes "sublist ''ti2v'' (task_of S rq)" and "\<not> sublist ''t2v'' (task_of S rq)"
  shows "fst (generate_step S W st rq cfg sz img model) \<noteq> Inl (HTTPException code detail)"
  by (simp add: generate_step_ti2v [OF assms] call_generate_def split: option.splits sum.splits)

text \<open>Only the branch of the image-to-video tasks raises the error of the missing image.\<close>

lemma generate_video_try_image_required:
  assumes "fst (generate_video_try S W st rq)
             = Inl (HTTPException 400 ''Image is required for i2v task'')"
  shows "model_class_for (task_of S rq) = Some (WanI2V, False) \<and> form_image rq = None"
proof (cases rule: generate_video_try_cases [where S = S and W = W and st = st and rq = rq])
  case bad_task
  with assms show ?thesis by simp
next
  case (bad_size cfg)
  with assms show ?thesis by simp
next
  case (image_error cfg sz e)
  with assms show ?thesis using process_image_no_http [of W st "form_image rq"] by simp
next
  case (model_error cfg sz img e)
  with assms show ?thesis
    using get_model_no_http [of S W "snd (process_image W st (form_image rq))" "task_of S rq"]
    by simp
next
  case (generate_error cfg sz img model e)
  with assms have "fst (generate_step S W
      (snd (get_model S W (snd (process_image W st (form_image rq))) (task_of S rq)))
      rq cfg sz img model) = Inl (HTTPException 400 ''Image is required for i2v task'')"
    by simp
  then have "model_class_for (task_of S rq) = Some (WanI2V, False)" and "img = None"
    by (simp_all add: generate_step_image_required)
  with generate_error(3) show ?thesis
    by (simp add: process_image_fst split: option.splits sum.splits)
next
  case (saved cfg sz img model video)
  with assms show ?thesis
    using save_and_return_no_http [of S W _ cfg video] by simp
qed

lemma process_image_None: "process_image W st None = (Inr None, st)"
  by (simp add: process_image_def)

text \<open>
  The calls of a text-and-image request: the image of the form, or \<open>None\<close>, is what
  \<open>generate\<close> receives, and the call is made as soon as the maximal area is configured.
\<close>

lemma generate_step_ti2v_calls:
  assumes "sublist ''ti2v'' (task_of S rq)" and "\<not> sublist ''t2v'' (task_of S rq)"
  shows "\<exists>cs. generated (snd (generate_step S W st rq cfg sz img model)) = generated st @ cs
           \<and> (\<forall>c \<in> set cs. arg_img (snd c) = Some img)
           \<and> (map_of (MAX_AREA_CONFIGS S) (size_of rq) \<noteq> None \<longrightarrow>
                (\<exists>a. cs = [(model, a)] \<and> arg_img a = Some img))"
  by (simp add: generate_step_ti2v [OF assms] call_generate_def split: option.splits sum.splits)

text \<open>
  C10. For a request to \<open>POST /generate\<close> with a text-and-image task (the name holds
  \<open>ti2v\<close> and not \<open>t2v\<close>, as \<open>ti2v-5B\<close> does, so that the second branch of the chain
  is taken) the image is optional.
  A request without an image is not rejected for it: the body never raises the error of
  the missing image, and when the task and the size are valid it raises no \<open>HTTPException\<close>
  at all. Every call of \<open>generate\<close> it makes has \<open>img=None\<close>, and the call is made once the
  task, the size and its maximal area are configured and the model loads. The check for a
  missing image applies to image-to-video tasks only: whatever the request, the body
  raises that error only in the third branch.
\<close>

theorem ti2v_image_optional:
  assumes ti2v: "sublist ''ti2v'' (task_of S rq)" "\<not> sublist ''t2v'' (task_of S rq)"
    and noimg: "form_image rq = None"
  shows "fst (generate_video_try S W st rq)
           \<noteq> Inl (HTTPException 400 ''Image is required for i2v task'')
     \<and> (map_of (WAN_CONFIGS S) (task_of S rq) \<noteq> None \<longrightarrow>
        map_of (SIZE_CONFIGS S) (size_of rq) \<noteq> None \<longrightarrow>
          (\<forall>code detail. fst (generate_video_try S W st rq) \<noteq> Inl (HTTPException code detail)))
     \<and> (\<forall>c \<in> set (new_calls st (snd (app S W st (POST_generate rq)))).
           arg_img (snd c) = Some None)
     \<and> (\<forall>model. map_of (WAN_CONFIGS S) (task_of S rq) \<noteq> None \<longrightarrow>
          map_of (SIZE_CONFIGS S) (size_of rq) \<noteq> None \<longrightarrow>
          map_of (MAX_AREA_CONFIGS S) (size_of rq) \<noteq> None \<longrightarrow>
          fst (get_model S W st (task_of S rq)) = Inr model \<longrightarrow>
            (\<exists>args. new_calls st (snd (app S W st (POST_generate rq))) = [(model, args)]
               \<and> arg_img args = Some None))
     \<and> (\<forall>rq'. fst (generate_video_try S W st rq')
                   = Inl (HTTPException 400 ''Image is required for i2v task'') \<longrightarrow>
            model_class_for (task_of S rq') = Some (WanI2V, False) \<and> form_image rq' = None)"
proof -
  let ?body = "generate_video_try S W st rq"
  let ?gm = "get_model S W st (task_of S rq)"
  have pim: "process_image W st (form_image rq) = (Inr None, st)"
    using noimg by (simp add: process_image_None)
  have cls: "model_class_for (task_of S rq) = Some (WanTI2V, True)"
    using ti2v by (simp add: model_class_for_def)
  have only: "model_class_for (task_of S rq') = Some (WanI2V, False) \<and> form_image rq' = None"
    if "fst (generate_video_try S W st rq')
          = Inl (HTTPException 400 ''Image is required for i2v task'')" for rq'
    using that by (rule generate_video_try_image_required)
  have first: "fst ?body \<noteq> Inl (HTTPException 400 ''Image is required for i2v task'')"
    using only [of rq] cls by auto
  have nohttp: "fst ?body \<noteq> Inl (HTTPException code detail)"
    if "map_of (WAN_CONFIGS S) (task_of S rq) \<noteq> None"
      and "map_of (SIZE_CONFIGS S) (size_of rq) \<noteq> None" for code detail
  proof (cases rule: generate_video_try_cases [where S = S and W = W and st = st and rq = rq])
    case bad_task
    with that show ?thesis by simp
  next
    case (bad_size cfg)
    with that show ?thesis by simp
  next
    case (image_error cfg sz e)
    then show ?thesis using pim by simp
  next
    case (model_error cfg sz img e)
    then show ?thesis using get_model_no_http [of S W st "task_of S rq" code detail] pim by auto
  next
    case (generate_error cfg sz img model e)
    then show ?thesis
      using generate_step_ti2v_no_http [OF ti2v, of W "snd ?gm" cfg sz img model code detail] pim
      by auto
  next
    case (saved cfg sz img model video)
    then show ?thesis
      using save_and_return_no_http [of S W _ cfg video code detail] by simp
  qed
  have calls: "\<exists>cs. generated (snd ?body) = generated st @ cs
      \<and> (\<forall>c \<in> set cs. arg_img (snd c) = Some None)
      \<and> (\<forall>model. map_of (WAN_CONFIGS S) (task_of S rq) \<noteq> None \<longrightarrow>
            map_of (SIZE_CONFIGS S) (size_of rq) \<noteq> None \<longrightarrow>
            map_of (MAX_AREA_CONFIGS S) (size_of rq) \<noteq> None \<longrightarrow>
            fst ?gm = Inr model \<longrightarrow> (\<exists>a. cs = [(model, a)] \<and> arg_img a = Some None))"
  proof -
    have step: ?thesis
      if img: "fst (process_image W st (form_image rq)) = Inr img"
        and gm: "fst (get_model S W (snd (process_image W st (form_image rq))) (task_of S rq))
                   = Inr model"
        and eq: "generated (snd ?body) = generated (snd (generate_step S W
                   (snd (get_model S W (snd (process_image W st (form_image rq))) (task_of S rq)))
                   rq cfg sz img model))"
      for cfg sz img model
    proof -
      from img pim have none: "img = None" by simp
      from gm pim have gm': "fst ?gm = Inr model" by simp
      from generate_step_ti2v_calls [OF ti2v, of W "snd ?gm" cfg sz None model] obtain cs where
        cs: "generated (snd (generate_step S W (snd ?gm) rq cfg sz None model))
               = generated (snd ?gm) @ cs"
          "\<forall>c \<in> set cs. arg_img (snd c) = Some None"
          "map_of (MAX_AREA_CONFIGS S) (size_of rq) \<noteq> None \<longrightarrow>
                (\<exists>a. cs = [(model, a)] \<and> arg_img a = Some None)"
        by blast
      from eq cs(1) none pim have "generated (snd ?body) = generated st @ cs"
        by simp
      with cs(2,3) gm' show ?thesis by auto
    qed
    show ?thesis
    proof (cases rule: generate_video_try_cases [where S = S and W = W and st = st and rq = rq])
      case bad_task
      then show ?thesis by (intro exI [of _ "[]"]) simp
    next
      case (bad_size cfg)
      then show ?thesis by (intro exI [of _ "[]"]) simp
    next
      case (image_error cfg sz e)
      then show ?thesis using pim by simp
    next
      case (model_error cfg sz img e)
      then show ?thesis using pim by (intro exI [of _ "[]"]) simp
    next
      case (generate_error cfg sz img model e)
      then show ?thesis by (intro step [of img model cfg sz]) simp_all
    next
      case (saved cfg sz img model video)
      then show ?thesis by (intro step [of img model cfg sz]) simp_all
    qed
  qed
  then obtain cs where cs: "generated (snd ?body) = generated st @ cs"
    "\<forall>c \<in> set cs. arg_img (snd c) = Some None"
    "\<forall>model. map_of (WAN_CONFIGS S) (task_of S rq) \<noteq> None \<longrightarrow>
            map_of (SIZE_CONFIGS S) (size_of rq) \<noteq> None \<longrightarrow>
            map_of (MAX_AREA_CONFIGS S) (size_of rq) \<noteq> None \<longrightarrow>
            fst ?gm = Inr model \<longrightarrow> (\<exists>a. cs = [(model, a)] \<and> arg_img a = Some None)"
    by blast
  have new: "new_calls st (snd (app S W st (POST_generate rq))) = cs"
    using cs(1) by (simp del: app.simps add: new_calls_append app_generate_generated)
  show ?thesis
    unfolding new using first nohttp cs(2,3) only by blast
qed

theorem ti2v_image_optional_witness:
  "sublist ''ti2v'' (task_of demo_settings demo_form)
   \<and> \<not> sublist ''t2v'' (task_of demo_settings demo_form)
   \<and> form_image demo_form = None
   \<and> fst (generate_video_try demo_settings demo_world demo_state demo_form)
       \<noteq> Inl (HTTPException 400 ''Image is required for i2v task'')
   \<and> status_code (fst (app demo_settings demo_world demo_state (POST_generate demo_form))) = 200
   \<and> map (\<lambda>c. arg_img (snd c))
         (new_calls demo_state
            (snd (app demo_settings demo_world demo_state (POST_generate demo_form))))
       = [Some None]
   \<and> fst (generate_video_try demo_settings demo_world demo_state
            (demo_form\<lparr>form_task := Some ''i2v-A14B''\<rparr>))
       = Inl (HTTPException 400 ''Image is required for i2v task'')
   \<and> model_class_for (task_of demo_settings (demo_form\<lparr>form_task := Some ''i2v-A14B''\<rparr>))
       = Some (WanI2V, False)"
proof -
  let ?i2v = "demo_form\<lparr>form_task := Some ''i2v-A14B''\<rparr>"
  have a: "sublist ''ti2v'' (task_of demo_settings demo_form)" by code_simp
  have b: "\<not> sublist ''t2v'' (task_of demo_settings demo_form)" by code_simp
  have c: "form_image demo_form = None" by (simp add: demo_form_def)
  have d: "status_code (fst (app demo_settings demo_world demo_state (POST_generate demo_form)))
             = 200"
    by code_simp
  have e: "fst (generate_video_try demo_settings demo_world demo_state ?i2v)
             = Inl (HTTPException 400 ''Image is required for i2v task'')"
    by code_simp
  have f: "map_of (WAN_CONFIGS demo_settings) (task_of demo_settings demo_form) \<noteq> None"
    by code_simp
  have g: "map_of (SIZE_CONFIGS demo_settings) (size_of demo_form) \<noteq> None"
    by code_simp
  have h: "map_of (MAX_AREA_CONFIGS demo_settings) (size_of demo_form) \<noteq> None"
    by code_simp
  have i: "fst (get_model demo_settings demo_world demo_state (task_of demo_settings demo_form))
             = Inr ''model of ./models/Wan2.2-TI2V-5B''"
    by code_simp
  note inst = ti2v_image_optional [OF a b c, of demo_world demo_state]
  from inst have j: "fst (generate_video_try demo_settings demo_world demo_state demo_form)
       \<noteq> Inl (HTTPException 400 ''Image is required for i2v task'')"
    by (rule conjunct1)
  from inst [THEN conjunct2, THEN conjunct2, THEN conjunct2, THEN conjunct1, rule_format,
      OF f g h i]
  have k: "map (\<lambda>c. arg_img (snd c))
         (new_calls demo_state
            (snd (app demo_settings demo_world demo_state (POST_generate demo_form))))
       = [Some None]"
    by (auto simp del: app.simps)
  from inst [THEN conjunct2, THEN conjunct2, THEN conjunct2, THEN conjunct2, rule_format, OF e]
  have l: "model_class_for (task_of demo_settings ?i2v) = Some (WanI2V, False)"
    by (rule conjunct1)
  show ?thesis
    by (intro conjI) (rule a b c j d k e l)+
qed

end
